theory Spec2Isabelle
  imports Main
begin

section \<open>JavaScript values and helpers used by the handlers\<close>

text \<open>
  Strings are lists of code units below 256. The values a platform argument can take
  (\<^verbatim>\<open>conv.arguments.get(name)\<close>): absent, null, a boolean, a string (the reprompt count
  is an int64 and arrives as a string), or an object. The same values are the fields of a
  document of the store.
\<close>

datatype jsval = Undefined | Null | Boolean bool | String string | Object

text \<open>Truthiness, as \<^verbatim>\<open>if (x)\<close> and \<^verbatim>\<open>!x\<close> test it.\<close>

fun truthy :: "jsval \<Rightarrow> bool" where
  "truthy Undefined = False"
| "truthy Null = False"
| "truthy (Boolean b) = b"
| "truthy (String s) = (s \<noteq> [])"
| "truthy Object = True"

text \<open>
  \<^verbatim>\<open>conv.data.fallbackCount\<close>: absent, not-a-number, or an integer (the handlers only
  ever store 0 and increments of it). \<^verbatim>\<open>x++\<close> on an absent property gives NaN.
\<close>

datatype count = NoCount | NaN | Num int

fun count_truthy :: "count \<Rightarrow> bool" where
  "count_truthy NoCount = False"
| "count_truthy NaN = False"
| "count_truthy (Num n) = (n \<noteq> 0)"

fun increment :: "count \<Rightarrow> count" where
  "increment NoCount = NaN"
| "increment NaN = NaN"
| "increment (Num n) = Num (n + 1)"

subsection \<open>parseInt\<close>

text \<open>
  \<^verbatim>\<open>parseInt(x)\<close> with no radix: the argument is turned into a string, leading white
  space is dropped, a sign is read, then a \<^verbatim>\<open>0x\<close> prefix (radix 16), then the longest run
  of digits. No digit gives NaN, here \<open>None\<close>.
\<close>

definition StrWhiteSpaceChar :: "char \<Rightarrow> bool" where
  "StrWhiteSpaceChar c =
     (c = CHR 0x09 \<or> c = CHR 0x0A \<or> c = CHR 0x0B \<or> c = CHR 0x0C \<or> c = CHR 0x0D
      \<or> c = CHR 0x20 \<or> c = CHR 0xA0)"

definition digit_value :: "nat \<Rightarrow> char \<Rightarrow> nat option" where
  "digit_value R c =
     (let n = (of_char c :: nat);
          d = (if 48 \<le> n \<and> n \<le> 57 then Some (n - 48)
               else if 97 \<le> n \<and> n \<le> 102 then Some (n - 87)
               else if 65 \<le> n \<and> n \<le> 70 then Some (n - 55)
               else None)
      in case d of None \<Rightarrow> None | Some v \<Rightarrow> if v < R then Some v else None)"

fun parse_digits :: "nat \<Rightarrow> string \<Rightarrow> nat option \<Rightarrow> nat option" where
  "parse_digits R [] acc = acc"
| "parse_digits R (c # cs) acc =
     (case digit_value R c of
        None \<Rightarrow> acc
      | Some d \<Rightarrow> parse_digits R cs (Some (case acc of None \<Rightarrow> d | Some a \<Rightarrow> a * R + d)))"

definition parseInt_string :: "string \<Rightarrow> int option" where
  "parseInt_string s =
     (let S = dropWhile StrWhiteSpaceChar s;
          neg = (case S of [] \<Rightarrow> False | c # _ \<Rightarrow> c = CHR ''-'');
          S1 = (case S of [] \<Rightarrow> []
                | c # cs \<Rightarrow> if c = CHR ''-'' \<or> c = CHR ''+'' then cs else S);
          hex = (case S1 of a # b # _ \<Rightarrow> a = CHR ''0'' \<and> (b = CHR ''x'' \<or> b = CHR ''X'')
                 | _ \<Rightarrow> False);
          S2 = (if hex then drop 2 S1 else S1)
      in case parse_digits (if hex then 16 else 10) S2 None of
           None \<Rightarrow> None
         | Some v \<Rightarrow> Some (if neg then - int v else int v))"

fun parseInt :: "jsval \<Rightarrow> int option" where
  "parseInt (String s) = parseInt_string s"
| "parseInt _ = None"

subsection \<open>Set, spread and join\<close>

text \<open>
  \<^verbatim>\<open>new Set(xs)\<close> adds the elements in order, an element already present is not added
  again, and \<^verbatim>\<open>[...set]\<close> lists the elements in insertion order.
\<close>

definition Set_add :: "'a list \<Rightarrow> 'a \<Rightarrow> 'a list" where
  "Set_add s x = (if x \<in> set s then s else s @ [x])"

definition new_Set :: "'a list \<Rightarrow> 'a list" where
  "new_Set xs = foldl Set_add [] xs"

fun join :: "string \<Rightarrow> string list \<Rightarrow> string" where
  "join sep [] = []"
| "join sep [x] = x"
| "join sep (x # y # ys) = x @ sep @ join sep (y # ys)"

section \<open>The conversation object\<close>

datatype response =
    Simple string
  | Suggestions "string list"
  | UpdatePermission string
  | RegisterUpdate string string

datatype error = Error string | TypeError

text \<open>What one webhook request carries.\<close>

record request =
  intent :: string
  screen :: bool
  arguments :: "string \<Rightarrow> jsval"
  parameters_day :: "string option"
  registered_status :: "string option"
  conversationId :: string

text \<open>
  The conversation of one turn: the request, the session data and what the handler has
  said so far. \<^verbatim>\<open>conv.ask\<close> appends a response and keeps the session open,
  \<^verbatim>\<open>conv.close\<close> appends a response and ends the session.
\<close>

record conv = request +
  data_fallbackCount :: count
  responses :: "response list"
  expectUserResponse :: bool

definition Conversation :: "request \<Rightarrow> count \<Rightarrow> conv" where
  "Conversation r d =
     \<lparr>intent = intent r, screen = screen r, arguments = arguments r,
      parameters_day = parameters_day r, registered_status = registered_status r,
      conversationId = conversationId r,
      data_fallbackCount = d, responses = [], expectUserResponse = True\<rparr>"

definition ask :: "response \<Rightarrow> conv \<Rightarrow> conv" where
  "ask x c = c\<lparr>responses := responses c @ [x], expectUserResponse := True\<rparr>"

definition close :: "response \<Rightarrow> conv \<Rightarrow> conv" where
  "close x c = c\<lparr>responses := responses c @ [x], expectUserResponse := False\<rparr>"

definition no_arguments :: "string \<Rightarrow> jsval" where
  "no_arguments name = Undefined"

section \<open>Data the handlers read and write\<close>

text \<open>
  One entry of \<^verbatim>\<open>schedule.json\<close>. The file is not part of the sources read here, so the
  schedule is a parameter: \<^verbatim>\<open>schedule.days\<close> maps a day name to its entries.
\<close>

record ScheduleEntry =
  name :: string
  startTime :: string

text \<open>
  \<^verbatim>\<open>new Date().getDay()\<close> numbers the days of the week from 0 for Sunday to 6 for
  Saturday.
\<close>

datatype weekday = Sunday | Monday | Tuesday | Wednesday | Thursday | Friday | Saturday

fun getDay :: "weekday \<Rightarrow> nat" where
  "getDay Sunday = 0"
| "getDay Monday = 1"
| "getDay Tuesday = 2"
| "getDay Wednesday = 3"
| "getDay Thursday = 4"
| "getDay Friday = 5"
| "getDay Saturday = 6"

text \<open>The English name of a day of the week, to state what the handlers resolve.\<close>

fun weekday_name :: "weekday \<Rightarrow> string" where
  "weekday_name Sunday = ''Sunday''"
| "weekday_name Monday = ''Monday''"
| "weekday_name Tuesday = ''Tuesday''"
| "weekday_name Wednesday = ''Wednesday''"
| "weekday_name Thursday = ''Thursday''"
| "weekday_name Friday = ''Friday''"
| "weekday_name Saturday = ''Saturday''"

definition DAYS :: "string list" where
  "DAYS = [''Sunday'', ''Monday'', ''Tuesday'', ''Wednesday'', ''Thursday'', ''Friday'',
           ''Saturday'']"

text \<open>\<^verbatim>\<open>xs[i]\<close>: undefined (\<open>None\<close>) out of range.\<close>

definition index :: "'a list \<Rightarrow> nat \<Rightarrow> 'a option" where
  "index xs i = (if i < length xs then Some (xs ! i) else None)"

text \<open>A string or undefined, as a property key or inside a template literal.\<close>

fun ToString :: "string option \<Rightarrow> string" where
  "ToString None = ''undefined''"
| "ToString (Some s) = s"

text \<open>
  The \<^verbatim>\<open>users\<close> collection of the document store, oldest document first. A document is
  its list of fields. \<^verbatim>\<open>add\<close> is the only write the handlers make.
\<close>

type_synonym document = "(string \<times> jsval) list"

definition FirestoreNames_INTENT :: string where
  "FirestoreNames_INTENT = ''intent''"

definition FirestoreNames_USER_ID :: string where
  "FirestoreNames_USER_ID = ''userId''"

definition collection_add :: "document \<Rightarrow> document list \<Rightarrow> document list" where
  "collection_add doc users = users @ [doc]"

definition where_eq :: "string \<Rightarrow> jsval \<Rightarrow> document list \<Rightarrow> document list" where
  "where_eq field v users = filter (\<lambda>doc. map_of doc field = Some v) users"

definition doc_get :: "document \<Rightarrow> string \<Rightarrow> jsval" where
  "doc_get doc field = (case map_of doc field of None \<Rightarrow> Undefined | Some v \<Rightarrow> v)"

text \<open>A call of \<^verbatim>\<open>request.post\<close> to the push endpoint, with the body as it is sent.\<close>

record post =
  url :: string
  bearer :: string
  title :: string
  target_userId :: jsval
  target_intent :: jsval
  isInSandbox :: bool

record httpResponse =
  statusCode :: nat
  statusMessage :: string

text \<open>
  What the outside world answers during one turn: the schedule file, the date, the result
  of \<^verbatim>\<open>client.authorize\<close> (an error or an access token), whether the query of the store
  is rejected, and the results of the delivery calls in the order they arrive, each an
  error or a response with its body (the body as its JSON text). A call has at most one
  result; a call whose result never arrives has none in the list.
\<close>

record world =
  schedule_days :: "string \<Rightarrow> ScheduleEntry list option"
  today :: weekday
  authorize_result :: "string + string"
  query_result :: "string option"
  post_results :: "(string + (httpResponse \<times> string)) list"

text \<open>
  What happens after the reply of a dispatch turn: the authorisation failed, the query
  failed, or one delivery call per subscriber was issued; then the lines the callbacks
  logged, and the error that ended the process, if a callback threw one.
\<close>

datatype dispatch =
    AuthFailed error
  | QueryFailed error
  | Dispatched "post list" "string list" "error option"

text \<open>
  The result of one turn: the conversation as the handler left it, the store, the error
  the handler threw (if any), and the background work it started.
\<close>

record turn_result =
  t_conv :: conv
  t_users :: "document list"
  t_thrown :: "error option"
  t_dispatch :: "dispatch option"

definition resolved :: "document list \<Rightarrow> conv \<Rightarrow> turn_result" where
  "resolved users c = \<lparr>t_conv = c, t_users = users, t_thrown = None, t_dispatch = None\<rparr>"

definition rejected :: "document list \<Rightarrow> conv \<Rightarrow> error \<Rightarrow> turn_result" where
  "rejected users c e = \<lparr>t_conv = c, t_users = users, t_thrown = Some e, t_dispatch = None\<rparr>"

fun decimal :: "nat \<Rightarrow> string" where
  "decimal n =
     (if n < 10 then [char_of (48 + n)]
      else decimal (n div 10) @ [char_of (48 + n mod 10)])"

declare decimal.simps [simp del]

section \<open>Suggestion chip titles\<close>

definition Suggestion_HOURS :: string where
  "Suggestion_HOURS = ''Ask about hours''"

definition Suggestion_CLASSES :: string where
  "Suggestion_CLASSES = ''Learn about classes''"

definition Suggestion_REMINDER :: string where
  "Suggestion_REMINDER = ''Set reminders''"

definition Suggestion_CANCELLATION :: string where
  "Suggestion_CANCELLATION = ''Class cancellation''"

definition Suggestion_DAILY_UPDATE :: string where
  "Suggestion_DAILY_UPDATE = ''Send daily updates''"

definition Suggestion_NOTIFICATION :: string where
  "Suggestion_NOTIFICATION = ''Send notifications''"

definition Suggestion_DAILY :: string where
  "Suggestion_DAILY = ''Send daily reminders''"

definition Suggestion_NOTIFICATIONS :: string where
  "Suggestion_NOTIFICATIONS = ''Get notifications''"

section \<open>The handlers of src/unnamed/part\_000, first file (lines 1 to 293)\<close>

text \<open>The middleware runs before every intent handler.\<close>

definition middleware :: "conv \<Rightarrow> conv" where
  "middleware c =
     (if \<not> count_truthy (data_fallbackCount c) \<or> \<not> (intent c = ''fallback'')
      then c\<lparr>data_fallbackCount := Num 0\<rparr>
      else c)"

definition welcome_intent :: "conv \<Rightarrow> conv" where
  "welcome_intent c =
     (let c1 = ask (Simple (''Welcome to Action Gym, your local gym here to '' @
                 ''support your health goals. You can ask me about our hours '' @
                 ''or what classes we offer each day.'')) c
      in if screen c1
         then ask (Suggestions [Suggestion_HOURS, Suggestion_CLASSES,
                Suggestion_CANCELLATION]) c1
         else c1)"

definition quit :: "conv \<Rightarrow> conv" where
  "quit c = close (Simple ''Great chatting with you!'') c"

definition hours :: "conv \<Rightarrow> conv" where
  "hours c =
     (let c1 = ask (Simple (''Our free weights and machines are available '' @
                 ''from 5am - 10pm, seven days a week. Can I help you with anything else?'')) c
      in if screen c1 then ask (Suggestions [Suggestion_CLASSES]) c1 else c1)"

text \<open>
  The day the class list is for (lines 107 to 109): the day parameter, or the name of
  today when the parameter is absent or empty.
\<close>

definition resolve_day :: "string option \<Rightarrow> weekday \<Rightarrow> string option" where
  "resolve_day day now =
     (if day = None \<or> day = Some [] then index DAYS (getDay now) else day)"

text \<open>
  The class list of a day (lines 110 to 112). A day that \<^verbatim>\<open>schedule.days\<close> does not have
  gives undefined, and calling \<^verbatim>\<open>map\<close> on it is a TypeError.
\<close>

definition classes_of :: "(string \<Rightarrow> ScheduleEntry list option) \<Rightarrow> string option
    \<Rightarrow> error + string" where
  "classes_of days day =
     (case days (ToString day) of
        None \<Rightarrow> Inl TypeError
      | Some entries \<Rightarrow>
          Inr (join '', '' (new_Set (map (\<lambda>d. name d @ '' at '' @ startTime d) entries))))"

definition classList :: "world \<Rightarrow> document list \<Rightarrow> conv \<Rightarrow> turn_result" where
  "classList w users c =
     (let day = resolve_day (parameters_day c) (today w)
      in case classes_of (schedule_days w) day of
           Inl e \<Rightarrow> rejected users c e
         | Inr classes \<Rightarrow>
             (let c1 = ask (Simple (''On '' @ ToString day @
                         '' we offer the following classes: '' @ classes @ ''. '' @
                         ''If you'd like, I can send you reminders about our classes. '' @
                         ''Can I help you with anything else?'')) c
              in resolved users
                   (if screen c1
                    then ask (Suggestions [Suggestion_HOURS, Suggestion_REMINDER,
                           Suggestion_CANCELLATION]) c1
                    else c1)))"

definition noInput :: "conv \<Rightarrow> conv" where
  "noInput c =
     (let repromptCount = parseInt (arguments c ''REPROMPT_COUNT'')
      in if repromptCount = Some 0 then ask (Simple ''Sorry, I can't hear you.'') c
         else if repromptCount = Some 1
           then ask (Simple ''I'm sorry, I still can't hear you.'') c
         else if truthy (arguments c ''IS_FINAL_REPROMPT'')
           then close (Simple (''I'm sorry, I'm having trouble here. '' @
                  ''Maybe we should try this again later.'')) c
         else c)"

definition fallback :: "conv \<Rightarrow> conv" where
  "fallback c =
     (let c1 = c\<lparr>data_fallbackCount := increment (data_fallbackCount c)\<rparr>
      in if data_fallbackCount c1 = Num 1 then ask (Simple ''Sorry, what was that?'') c1
         else if data_fallbackCount c1 = Num 2
           then ask (Simple (''I didn't quite get that. I can tell you our hours '' @
                  ''or what classes we offer each day.'')) c1
         else close (Simple (''Sorry, I'm still having trouble. '' @
                ''So let's stop here for now. Bye.'')) c1)"

definition reminder :: "conv \<Rightarrow> conv" where
  "reminder c =
     (let c1 = ask (Simple (''Great! I can send you the list of classes by '' @
                 ''sending you a daily updates. Let me know if you want me to send these '' @
                 ''to you.'')) c
      in if screen c1 then ask (Suggestions [Suggestion_DAILY_UPDATE]) c1 else c1)"

definition notification :: "conv \<Rightarrow> conv" where
  "notification c =
     (let c1 = ask (Simple (''I can support you by sending you '' @
                 ''notifications when classes get cancelled due to emergencies. '' @
                 ''Let me know if you want me to send these to you.'')) c
      in if screen c1 then ask (Suggestions [Suggestion_NOTIFICATION]) c1 else c1)"

definition setupPushNotifications :: "conv \<Rightarrow> conv" where
  "setupPushNotifications c =
     ask (UpdatePermission ''classCanceled'')
       (ask (Simple ''Update permission for setting up push notifications'') c)"

text \<open>
  The opt-in (lines 181 to 199). The handler returns the promise of the write, so the
  reply is made once the document is in the collection. The store is taken to accept the
  write: the handler has no branch for a rejected one.
\<close>

definition configurePushNotifications :: "document list \<Rightarrow> conv \<Rightarrow> turn_result" where
  "configurePushNotifications users c =
     (if truthy (arguments c ''PERMISSION'')
      then
        (let userId = arguments c ''UPDATES_USER_ID'';
             userId = (if \<not> truthy userId then String (conversationId c) else userId);
             users1 = collection_add
                        [(FirestoreNames_INTENT, String ''classCanceled''),
                         (FirestoreNames_USER_ID, userId)] users
         in resolved users1
              (ask (Simple (''Cool, I'll notify you whenever there is a cancelation. '' @
                 ''Would you like anything else?'')) c))
      else resolved users
             (ask (Simple ''Okay, I won't notify you. Would you like anything else?'') c))"

definition classCanceled :: "conv \<Rightarrow> conv" where
  "classCanceled c = ask (Simple ''A class was canceled.'') c"

definition setupUpdates :: "conv \<Rightarrow> conv" where
  "setupUpdates c = ask (RegisterUpdate ''classList'' ''DAILY'') c"

definition configureUpdates :: "conv \<Rightarrow> conv" where
  "configureUpdates c =
     (let c1 = (if registered_status c = Some ''OK''
                then ask (Simple (''Gotcha, I'll send you an update everyday with the '' @
                       ''list of classes. Anything else I can help you with?'')) c
                else ask (Simple (''Ok, I won't send you daily updates. Anything else I '' @
                       ''can help you with?'')) c)
      in if screen c1
         then ask (Suggestions [Suggestion_HOURS, Suggestion_CLASSES,
                Suggestion_REMINDER, Suggestion_CANCELLATION]) c1
         else c1)"

definition setupRoutine :: "conv \<Rightarrow> conv" where
  "setupRoutine c = ask (RegisterUpdate ''classList'' ''ROUTINES'') c"

definition configureRoutine :: "conv \<Rightarrow> conv" where
  "configureRoutine c =
     (let c1 = ask (Simple ''Anything else I can help you with?'') c
      in if screen c1
         then ask (Suggestions [Suggestion_HOURS, Suggestion_CLASSES,
                Suggestion_REMINDER, Suggestion_NOTIFICATION]) c1
         else c1)"

text \<open>
  The callback of one delivery call (lines 276 to 283, and the same text at lines 541 to
  548): an error is thrown again, a response is logged with its body.
\<close>

definition post_callback :: "string + (httpResponse \<times> string) \<Rightarrow> error + string list" where
  "post_callback r =
     (case r of
        Inl err \<Rightarrow> Inl (Error (''API request error: '' @ err))
      | Inr (httpResponse, body) \<Rightarrow>
          Inr [decimal (statusCode httpResponse) @ '': '' @ statusMessage httpResponse,
               body])"

text \<open>
  The callbacks run one at a time, in the order the results arrive. Nothing catches what
  a callback throws: the error ends the process, and the callbacks of the results that
  arrive later never run. The outcome is the lines logged until then and that error.
\<close>

fun run_callbacks :: "(string + (httpResponse \<times> string)) list
    \<Rightarrow> string list \<times> error option" where
  "run_callbacks [] = ([], None)"
| "run_callbacks (r # rs) =
     (case post_callback r of
        Inl e \<Rightarrow> ([], Some e)
      | Inr lines \<Rightarrow> (case run_callbacks rs of (log, e) \<Rightarrow> (lines @ log, e)))"

text \<open>
  The callback of \<^verbatim>\<open>client.authorize\<close> (lines 257 to 289). It runs after the handler has
  returned. The delivery calls are all issued inside \<^verbatim>\<open>forEach\<close>, one for each
  document of the query and with the target of that document; the callbacks run later,
  on the results that arrive for these calls.
\<close>

definition cancelClass_authorized :: "world \<Rightarrow> document list \<Rightarrow> dispatch" where
  "cancelClass_authorized w users =
     (case authorize_result w of
        Inl err \<Rightarrow> AuthFailed (Error (''Auth error: '' @ err))
      | Inr access_token \<Rightarrow>
          (case query_result w of
             Some e \<Rightarrow> QueryFailed (Error (''Firestore query error: '' @ e))
           | None \<Rightarrow>
               (let querySnapshot =
                      where_eq FirestoreNames_INTENT (String ''classCanceled'') users;
                    posts =
                      map (\<lambda>user.
                             \<lparr>url = ''https://actions.googleapis.com/v2/conversations:send'',
                              bearer = access_token,
                              title = ''Notification Title'',
                              target_userId = doc_get user FirestoreNames_USER_ID,
                              target_intent = doc_get user FirestoreNames_INTENT,
                              isInSandbox = True\<rparr>)
                        querySnapshot
                in case run_callbacks (take (length posts) (post_results w)) of
                     (log, e) \<Rightarrow> Dispatched posts log e)))"

text \<open>
  The trigger (lines 248 to 291): the authorisation is started, and the handler replies
  at once. The key file \<^verbatim>\<open>service-account.json\<close> is read with \<^verbatim>\<open>require\<close>, as the
  schedule is, and is taken to be there; what it holds only matters to the result of the
  authorisation. The query reads the collection as it is at the turn.
\<close>

definition cancelClass :: "world \<Rightarrow> document list \<Rightarrow> conv \<Rightarrow> turn_result" where
  "cancelClass w users c =
     \<lparr>t_conv = ask (Simple ''A notification has been sent to all subscribed users.'') c,
      t_users = users,
      t_thrown = None,
      t_dispatch = Some (cancelClass_authorized w users)\<rparr>"

text \<open>
  \<^verbatim>\<open>app.intent(name, handler)\<close> registers a handler under an intent name, and
  \<^verbatim>\<open>exports.fulfillment\<close> serves one request: the middleware runs, then the handler
  registered for the intent of the request, then the conversation is turned into the
  response. An intent with no handler is an error, and so is a conversation in which the
  handler has put no response: the request fails, with what the handler did before
  left as it is.
\<close>

definition no_response_set :: error where
  "no_response_set =
     Error (''No response has been set. '' @
            ''Is this being used in an async call that was not '' @
            ''returned as a promise to the intent handler?'')"

type_synonym handler = "world \<Rightarrow> document list \<Rightarrow> conv \<Rightarrow> turn_result"

definition intents :: "(string \<times> handler) list" where
  "intents =
     [(''welcome'', \<lambda>w users c. resolved users (welcome_intent c)),
      (''quit'', \<lambda>w users c. resolved users (quit c)),
      (''hours'', \<lambda>w users c. resolved users (hours c)),
      (''classList'', classList),
      (''noInput'', \<lambda>w users c. resolved users (noInput c)),
      (''fallback'', \<lambda>w users c. resolved users (fallback c)),
      (''reminder'', \<lambda>w users c. resolved users (reminder c)),
      (''notification'', \<lambda>w users c. resolved users (notification c)),
      (''setupPushNotifications'', \<lambda>w users c. resolved users (setupPushNotifications c)),
      (''configurePushNotifications'', \<lambda>w users c. configurePushNotifications users c),
      (''classCanceled'', \<lambda>w users c. resolved users (classCanceled c)),
      (''setupUpdates'', \<lambda>w users c. resolved users (setupUpdates c)),
      (''configureUpdates'', \<lambda>w users c. resolved users (configureUpdates c)),
      (''setupRoutine'', \<lambda>w users c. resolved users (setupRoutine c)),
      (''configureRoutine'', \<lambda>w users c. resolved users (configureRoutine c)),
      (''cancelClass'', cancelClass)]"

definition serve :: "(conv \<Rightarrow> conv) \<Rightarrow> (string \<times> handler) list \<Rightarrow> world \<Rightarrow> document list
    \<Rightarrow> request \<Rightarrow> count \<Rightarrow> turn_result" where
  "serve mw table w users r d =
     (let c = mw (Conversation r d)
      in case map_of table (intent c) of
           None \<Rightarrow>
             rejected users c
               (Error (''Dialogflow IntentHandler not found for intent: '' @ intent c))
         | Some h \<Rightarrow>
             (let t = h w users c
              in if t_thrown t = None \<and> responses (t_conv t) = []
                 then t\<lparr>t_thrown := Some no_response_set\<rparr>
                 else t))"

definition fulfillment :: "world \<Rightarrow> document list \<Rightarrow> request \<Rightarrow> count \<Rightarrow> turn_result" where
  "fulfillment = serve middleware intents"

section \<open>The handlers of src/start/functions/index.js\<close>

text \<open>
  The middleware and the handlers of Welcome, Quit, Hours, No Input and Fallback have the
  same text in the second file of src/unnamed/part\_000 (lines 364 to 448).
\<close>

definition middleware_Fallback :: "conv \<Rightarrow> conv" where
  "middleware_Fallback c =
     (if \<not> count_truthy (data_fallbackCount c) \<or> \<not> (intent c = ''Fallback'')
      then c\<lparr>data_fallbackCount := Num 0\<rparr>
      else c)"

definition Welcome :: "conv \<Rightarrow> conv" where
  "Welcome c =
     (let c1 = ask (Simple (''Welcome to Action Gym, your local gym here to '' @
                 ''support your health goals. You can ask me about our hours '' @
                 ''or what classes we offer each day.'')) c
      in if screen c1 then ask (Suggestions [Suggestion_HOURS, Suggestion_CLASSES]) c1
         else c1)"

definition Quit :: "conv \<Rightarrow> conv" where
  "Quit c = close (Simple ''Great chatting with you!'') c"

definition Hours :: "conv \<Rightarrow> conv" where
  "Hours c =
     (let c1 = ask (Simple (''Our free weights and machines are available '' @
                 ''from 5am - 10pm, seven days a week. Can I help you with anything else?'')) c
      in if screen c1 then ask (Suggestions [Suggestion_CLASSES]) c1 else c1)"

definition start_Class_List :: "world \<Rightarrow> document list \<Rightarrow> conv \<Rightarrow> turn_result" where
  "start_Class_List w users c =
     (let day = resolve_day (parameters_day c) (today w)
      in case classes_of (schedule_days w) day of
           Inl e \<Rightarrow> rejected users c e
         | Inr classes \<Rightarrow>
             (let c1 = ask (Simple (''On '' @ ToString day @
                         '' we offer the following classes: '' @ classes @ ''. '' @
                         ''Can I help you with anything else?'')) c
              in resolved users
                   (if screen c1 then ask (Suggestions [Suggestion_HOURS]) c1 else c1)))"

definition No_Input :: "conv \<Rightarrow> conv" where
  "No_Input c =
     (let repromptCount = parseInt (arguments c ''REPROMPT_COUNT'')
      in if repromptCount = Some 0 then ask (Simple ''Sorry, I can't hear you.'') c
         else if repromptCount = Some 1
           then ask (Simple ''I'm sorry, I still can't hear you.'') c
         else if truthy (arguments c ''IS_FINAL_REPROMPT'')
           then close (Simple (''I'm sorry, I'm having trouble here. '' @
                  ''Maybe we should try this again later.'')) c
         else c)"

definition Fallback :: "conv \<Rightarrow> conv" where
  "Fallback c =
     (let c1 = c\<lparr>data_fallbackCount := increment (data_fallbackCount c)\<rparr>
      in if data_fallbackCount c1 = Num 1 then ask (Simple ''Sorry, what was that?'') c1
         else if data_fallbackCount c1 = Num 2
           then ask (Simple (''I didn't quite get that. I can tell you our hours '' @
                  ''or what classes we offer each day.'')) c1
         else close (Simple (''Sorry, I'm still having trouble. '' @
                ''So let's stop here for now. Bye.'')) c1)"

definition start_intents :: "(string \<times> handler) list" where
  "start_intents =
     [(''Welcome'', \<lambda>w users c. resolved users (Welcome c)),
      (''Quit'', \<lambda>w users c. resolved users (Quit c)),
      (''Hours'', \<lambda>w users c. resolved users (Hours c)),
      (''Class List'', start_Class_List),
      (''No Input'', \<lambda>w users c. resolved users (No_Input c)),
      (''Fallback'', \<lambda>w users c. resolved users (Fallback c))]"

definition start_fulfillment :: "world \<Rightarrow> document list \<Rightarrow> request \<Rightarrow> count
    \<Rightarrow> turn_result" where
  "start_fulfillment = serve middleware_Fallback start_intents"

section \<open>The handlers of src/unnamed/part\_000, second file (lines 294 to 558)\<close>

definition Class_List :: "world \<Rightarrow> document list \<Rightarrow> conv \<Rightarrow> turn_result" where
  "Class_List w users c =
     (let day = resolve_day (parameters_day c) (today w)
      in case classes_of (schedule_days w) day of
           Inl e \<Rightarrow> rejected users c e
         | Inr classes \<Rightarrow>
             (let classesMessage = ''On '' @ ToString day @
                    '' we offer the following classes: '' @ classes @ ''. '';
                  engagement = arguments c ''UPDATES''
              in if truthy engagement
                 then resolved users
                        (close (Simple (classesMessage @
                           ''Hope to see you soon at Action Gym!'')) c)
                 else
                   (let c1 = ask (Simple (classesMessage @
                               ''Would you like to receive daily reminders of upcoming '' @
                               ''classes, subscribe to notifications about cancelations, or can I help '' @
                               ''you with anything else?'')) c
                    in resolved users
                         (if screen c1
                          then ask (Suggestions [Suggestion_DAILY, Suggestion_NOTIFICATIONS,
                                 Suggestion_HOURS]) c1
                          else c1))))"

definition Setup_Updates :: "conv \<Rightarrow> conv" where
  "Setup_Updates c = ask (RegisterUpdate ''Class List'' ''DAILY'') c"

definition Confirm_Updates :: "conv \<Rightarrow> conv" where
  "Confirm_Updates c =
     (let c1 = (if registered_status c = Some ''OK''
                then ask (Simple (''Gotcha, I'll send you an update everyday with the '' @
                       ''list of classes. Can I help you with anything else?'')) c
                else ask (Simple
                       '' I won't send you daily reminders. Can I help you with anything else?'') c)
      in if screen c1 then ask (Suggestions [Suggestion_HOURS, Suggestion_CLASSES]) c1
         else c1)"

definition Setup_Push_Notifications :: "conv \<Rightarrow> conv" where
  "Setup_Push_Notifications c =
     ask (UpdatePermission ''Class Canceled'')
       (ask (Simple ''Update permission for setting up push notifications'') c)"

text \<open>
  The opt-in (lines 478 to 502). The granted branch returns the promise of the write, so
  the suggestions at the end are only added when the permission was not granted.
\<close>

definition Confirm_Push_Notifications :: "document list \<Rightarrow> conv \<Rightarrow> turn_result" where
  "Confirm_Push_Notifications users c =
     (if truthy (arguments c ''PERMISSION'')
      then
        (let userId = arguments c ''UPDATES_USER_ID'';
             userId = (if \<not> truthy userId then String (conversationId c) else userId);
             users1 = collection_add
                        [(FirestoreNames_INTENT, String ''Class Canceled''),
                         (FirestoreNames_USER_ID, userId)] users
         in resolved users1
              (ask (Simple (''Great, I'll notify you whenever there's a class cancelation. '' @
                 ''Can I help you with anything else?'')) c))
      else
        (let c1 = ask (Simple
                    (''Okay, I won't send you notifications about class cancelations. '' @
                     ''Can I help you with anything else?'')) c
         in resolved users
              (if screen c1 then ask (Suggestions [Suggestion_CLASSES, Suggestion_HOURS]) c1
               else c1)))"

definition Class_Canceled :: "conv \<Rightarrow> conv" where
  "Class_Canceled c = ask (Simple ''Classname at classtime has been canceled.'') c"

text \<open>The callback of \<^verbatim>\<open>client.authorize\<close> (lines 520 to 554).\<close>

definition Cancel_Class_authorized :: "world \<Rightarrow> document list \<Rightarrow> dispatch" where
  "Cancel_Class_authorized w users =
     (case authorize_result w of
        Inl err \<Rightarrow> AuthFailed (Error (''Auth error: '' @ err))
      | Inr access_token \<Rightarrow>
          (case query_result w of
             Some e \<Rightarrow> QueryFailed (Error (''Firestore query error: '' @ e))
           | None \<Rightarrow>
               (let querySnapshot =
                      where_eq FirestoreNames_INTENT (String ''Class Canceled'') users;
                    posts =
                      map (\<lambda>user.
                             \<lparr>url = ''https://actions.googleapis.com/v2/conversations:send'',
                              bearer = access_token,
                              title = ''Test Notification from Action Gym'',
                              target_userId = doc_get user FirestoreNames_USER_ID,
                              target_intent = doc_get user FirestoreNames_INTENT,
                              isInSandbox = True\<rparr>)
                        querySnapshot
                in case run_callbacks (take (length posts) (post_results w)) of
                     (log, e) \<Rightarrow> Dispatched posts log e)))"

definition Cancel_Class :: "world \<Rightarrow> document list \<Rightarrow> conv \<Rightarrow> turn_result" where
  "Cancel_Class w users c =
     \<lparr>t_conv = ask (Simple ''A notification has been sent to all subscribed users.'') c,
      t_users = users,
      t_thrown = None,
      t_dispatch = Some (Cancel_Class_authorized w users)\<rparr>"

definition intents_2 :: "(string \<times> handler) list" where
  "intents_2 =
     [(''Welcome'', \<lambda>w users c. resolved users (Welcome c)),
      (''Quit'', \<lambda>w users c. resolved users (Quit c)),
      (''Hours'', \<lambda>w users c. resolved users (Hours c)),
      (''Class List'', Class_List),
      (''No Input'', \<lambda>w users c. resolved users (No_Input c)),
      (''Fallback'', \<lambda>w users c. resolved users (Fallback c)),
      (''Setup Updates'', \<lambda>w users c. resolved users (Setup_Updates c)),
      (''Confirm Updates'', \<lambda>w users c. resolved users (Confirm_Updates c)),
      (''Setup Push Notifications'',
         \<lambda>w users c. resolved users (Setup_Push_Notifications c)),
      (''Confirm Push Notifications'', \<lambda>w users c. Confirm_Push_Notifications users c),
      (''Class Canceled'', \<lambda>w users c. resolved users (Class_Canceled c)),
      (''Cancel Class'', Cancel_Class)]"

definition fulfillment_2 :: "world \<Rightarrow> document list \<Rightarrow> request \<Rightarrow> count \<Rightarrow> turn_result" where
  "fulfillment_2 = serve middleware_Fallback intents_2"

section \<open>A session\<close>

text \<open>
  The platform sends the turns of one session in order and hands the session data of one
  turn to the next. The session is over once a handler has closed it or has failed; the
  turns left are not served.
\<close>

fun session :: "(world \<Rightarrow> document list \<Rightarrow> request \<Rightarrow> count \<Rightarrow> turn_result)
    \<Rightarrow> document list \<Rightarrow> count \<Rightarrow> (world \<times> request) list \<Rightarrow> turn_result list" where
  "session app users d [] = []"
| "session app users d ((w, r) # turns) =
     (let t = app w users r d
      in if t_thrown t \<noteq> None \<or> \<not> expectUserResponse (t_conv t) then [t]
         else t # session app (t_users t) (data_fallbackCount (t_conv t)) turns)"

text \<open>What the user gets from a turn: the responses, and whether the session goes on.\<close>

definition reply :: "turn_result \<Rightarrow> response list \<times> bool" where
  "reply t = (responses (t_conv t), expectUserResponse (t_conv t))"

section \<open>The statements of the specification, in its own words\<close>

text \<open>
  Deduplication that keeps the first occurrence of every element, in the order of the
  first occurrences.
\<close>

fun dedup_first :: "'a list \<Rightarrow> 'a list" where
  "dedup_first [] = []"
| "dedup_first (x # xs) = x # dedup_first (filter (\<lambda>y. y \<noteq> x) xs)"

text \<open>The "name at time" string of a schedule entry.\<close>

definition name_at_time :: "ScheduleEntry \<Rightarrow> string" where
  "name_at_time d = name d @ '' at '' @ startTime d"

text \<open>The three steps of the fallback escalation.\<close>

definition mild_reprompt :: "response list \<times> bool" where
  "mild_reprompt = ([Simple ''Sorry, what was that?''], True)"

definition detailed_reprompt :: "response list \<times> bool" where
  "detailed_reprompt =
     ([Simple (''I didn't quite get that. I can tell you our hours '' @
               ''or what classes we offer each day.'')], True)"

definition closing_message :: "response list \<times> bool" where
  "closing_message =
     ([Simple (''Sorry, I'm still having trouble. '' @
               ''So let's stop here for now. Bye.'')], False)"

text \<open>
  What a dispatch did: the delivery calls it issued, the lines its callbacks logged, and
  the error that nothing caught.
\<close>

definition posts_issued :: "dispatch option \<Rightarrow> post list" where
  "posts_issued b = (case b of Some (Dispatched posts log e) \<Rightarrow> posts | _ \<Rightarrow> [])"

definition console_log :: "dispatch option \<Rightarrow> string list" where
  "console_log b = (case b of Some (Dispatched posts log e) \<Rightarrow> log | _ \<Rightarrow> [])"

definition uncaught :: "dispatch option \<Rightarrow> error option" where
  "uncaught b =
     (case b of
        None \<Rightarrow> None
      | Some (AuthFailed e) \<Rightarrow> Some e
      | Some (QueryFailed e) \<Rightarrow> Some e
      | Some (Dispatched posts log e) \<Rightarrow> e)"

text \<open>
  A delivery call that was answered, and the two lines logged for an answer: the status
  line and the body.
\<close>

fun answered :: "string + (httpResponse \<times> string) \<Rightarrow> bool" where
  "answered (Inl err) = False"
| "answered (Inr a) = True"

fun answer_lines :: "string + (httpResponse \<times> string) \<Rightarrow> string list" where
  "answer_lines (Inl err) = []"
| "answer_lines (Inr (httpResponse, body)) =
     [decimal (statusCode httpResponse) @ '': '' @ statusMessage httpResponse, body]"

text \<open>The error of the first delivery call that failed, as the callback throws it.\<close>

fun first_failure :: "(string + (httpResponse \<times> string)) list \<Rightarrow> error option" where
  "first_failure [] = None"
| "first_failure (Inl err # rs) = Some (Error (''API request error: '' @ err))"
| "first_failure (Inr a # rs) = first_failure rs"

text \<open>The user identifier of an opt-in: the one of the permission flow, else the conversation.\<close>

definition resolved_userId :: "request \<Rightarrow> jsval" where
  "resolved_userId r =
     (if truthy (arguments r ''UPDATES_USER_ID'') then arguments r ''UPDATES_USER_ID''
      else String (conversationId r))"

section \<open>Concrete inputs\<close>

definition example_entries :: "ScheduleEntry list" where
  "example_entries =
     [\<lparr>name = ''Yoga'', startTime = ''6am''\<rparr>, \<lparr>name = ''Yoga'', startTime = ''6am''\<rparr>,
      \<lparr>name = ''Spin'', startTime = ''7am''\<rparr>]"

definition example_schedule :: "string \<Rightarrow> ScheduleEntry list option" where
  "example_schedule day =
     (if day = ''Monday'' then Some example_entries
      else if day = ''Saturday'' then Some [\<lparr>name = ''Pilates'', startTime = ''9am''\<rparr>]
      else None)"

definition example_post_results :: "(string + (httpResponse \<times> string)) list" where
  "example_post_results =
     [Inl ''ETIMEDOUT'', Inr (\<lparr>statusCode = 200, statusMessage = ''OK''\<rparr>, ''{}'')]"

definition example_world :: "weekday \<Rightarrow> world" where
  "example_world now =
     \<lparr>schedule_days = example_schedule, today = now, authorize_result = Inr ''token'',
      query_result = None, post_results = example_post_results\<rparr>"

definition example_request :: "string \<Rightarrow> request" where
  "example_request i =
     \<lparr>intent = i, screen = False, arguments = no_arguments, parameters_day = None,
      registered_status = None, conversationId = ''conversation-1''\<rparr>"

definition granted_arguments :: "string \<Rightarrow> jsval" where
  "granted_arguments a =
     (if a = ''PERMISSION'' then Boolean True
      else if a = ''UPDATES_USER_ID'' then String ''user-7''
      else Undefined)"

definition example_users :: "string \<Rightarrow> document list" where
  "example_users topic =
     [[(''intent'', String topic), (''userId'', String ''user-1'')],
      [(''intent'', String topic), (''userId'', String ''user-2'')]]"

definition unparsable_arguments :: "string \<Rightarrow> jsval" where
  "unparsable_arguments a =
     (if a = ''REPROMPT_COUNT'' then String ''two''
      else if a = ''IS_FINAL_REPROMPT'' then Boolean False
      else Undefined)"

definition third_reprompt_arguments :: "string \<Rightarrow> jsval" where
  "third_reprompt_arguments a = (if a = ''REPROMPT_COUNT'' then String ''2'' else Undefined)"

definition permission_only_arguments :: "string \<Rightarrow> jsval" where
  "permission_only_arguments a = (if a = ''PERMISSION'' then Boolean True else Undefined)"

definition answered_post_results :: "(string + (httpResponse \<times> string)) list" where
  "answered_post_results =
     [Inr (\<lparr>statusCode = 200, statusMessage = ''OK''\<rparr>, ''{}''),
      Inr (\<lparr>statusCode = 404, statusMessage = ''Not Found''\<rparr>, ''{}'')]"

definition screen_request :: "string \<Rightarrow> request" where
  "screen_request i =
     \<lparr>intent = i, screen = True, arguments = no_arguments, parameters_day = Some [],
      registered_status = None, conversationId = ''conversation-2''\<rparr>"

section \<open>Properties\<close>

lemmas handler_defs =
  welcome_intent_def quit_def hours_def noInput_def fallback_def reminder_def notification_def
  setupPushNotifications_def classCanceled_def setupUpdates_def configureUpdates_def
  setupRoutine_def configureRoutine_def Welcome_def Quit_def Hours_def No_Input_def
  Fallback_def Setup_Updates_def Confirm_Updates_def Setup_Push_Notifications_def
  Class_Canceled_def

lemmas turn_handler_defs =
  classList_def start_Class_List_def Class_List_def configurePushNotifications_def
  Confirm_Push_Notifications_def cancelClass_def Cancel_Class_def

lemma intent_middleware [simp]: "intent (middleware c) = intent c"
  by (simp add: middleware_def)

lemma intent_middleware_Fallback [simp]: "intent (middleware_Fallback c) = intent c"
  by (simp add: middleware_Fallback_def)

lemma intent_Conversation [simp]: "intent (Conversation r d) = intent r"
  by (simp add: Conversation_def)

lemma count_ask [simp]: "data_fallbackCount (ask x c) = data_fallbackCount c"
  by (simp add: ask_def)

lemma count_close [simp]: "data_fallbackCount (close x c) = data_fallbackCount c"
  by (simp add: close_def)

lemma t_conv_resolved [simp]: "t_conv (resolved users c) = c"
  by (simp add: resolved_def)

lemma t_conv_rejected [simp]: "t_conv (rejected users c e) = c"
  by (simp add: rejected_def)

lemma t_users_resolved [simp]: "t_users (resolved users c) = users"
  by (simp add: resolved_def)

lemma t_users_rejected [simp]: "t_users (rejected users c e) = users"
  by (simp add: rejected_def)

lemma t_thrown_resolved [simp]: "t_thrown (resolved users c) = None"
  by (simp add: resolved_def)

lemma count_Conversation [simp]: "data_fallbackCount (Conversation r d) = d"
  by (simp add: Conversation_def)

lemma Conversation_fields [simp]:
  "screen (Conversation r d) = screen r"
  "arguments (Conversation r d) = arguments r"
  "parameters_day (Conversation r d) = parameters_day r"
  "registered_status (Conversation r d) = registered_status r"
  "conversationId (Conversation r d) = conversationId r"
  "responses (Conversation r d) = []"
  "expectUserResponse (Conversation r d) = True"
  by (simp_all add: Conversation_def)

lemma reply_resolved [simp]:
  "reply (resolved users c) = (responses c, expectUserResponse c)"
  by (simp add: reply_def)

lemma reply_rejected [simp]:
  "reply (rejected users c e) = (responses c, expectUserResponse c)"
  by (simp add: reply_def)

lemma t_thrown_rejected [simp]: "t_thrown (rejected users c e) = Some e"
  by (simp add: rejected_def)

lemma ask_fields [simp]:
  "responses (ask x c) = responses c @ [x]"
  "expectUserResponse (ask x c) = True"
  "screen (ask x c) = screen c"
  "arguments (ask x c) = arguments c"
  by (simp_all add: ask_def)

lemma close_fields [simp]:
  "responses (close x c) = responses c @ [x]"
  "expectUserResponse (close x c) = False"
  by (simp_all add: close_def)

lemma handlers_respond [simp]:
  "responses (welcome_intent c) \<noteq> []"
  "responses (quit c) \<noteq> []"
  "responses (hours c) \<noteq> []"
  "responses (fallback c) \<noteq> []"
  "responses (reminder c) \<noteq> []"
  "responses (notification c) \<noteq> []"
  "responses (setupPushNotifications c) \<noteq> []"
  "responses (classCanceled c) \<noteq> []"
  "responses (setupUpdates c) \<noteq> []"
  "responses (configureUpdates c) \<noteq> []"
  "responses (setupRoutine c) \<noteq> []"
  "responses (configureRoutine c) \<noteq> []"
  "responses (Welcome c) \<noteq> []"
  "responses (Quit c) \<noteq> []"
  "responses (Hours c) \<noteq> []"
  "responses (Fallback c) \<noteq> []"
  "responses (Setup_Updates c) \<noteq> []"
  "responses (Confirm_Updates c) \<noteq> []"
  "responses (Setup_Push_Notifications c) \<noteq> []"
  "responses (Class_Canceled c) \<noteq> []"
  by (simp_all add: handler_defs Let_def)

lemma turn_handlers_respond [simp]:
  "t_thrown (classList w users c) = None \<Longrightarrow> responses (t_conv (classList w users c)) \<noteq> []"
  "t_thrown (start_Class_List w users c) = None \<Longrightarrow>
     responses (t_conv (start_Class_List w users c)) \<noteq> []"
  "t_thrown (Class_List w users c) = None \<Longrightarrow> responses (t_conv (Class_List w users c)) \<noteq> []"
  "responses (t_conv (configurePushNotifications users c)) \<noteq> []"
  "responses (t_conv (Confirm_Push_Notifications users c)) \<noteq> []"
  "responses (t_conv (cancelClass w users c)) \<noteq> []"
  "responses (t_conv (Cancel_Class w users c)) \<noteq> []"
  by (simp_all add: turn_handler_defs Let_def split: sum.splits)

text \<open>A turn whose handler has responded, or has thrown, is the handler's.\<close>

lemma serve_found:
  assumes "map_of table (intent r) = Some h" and "\<And>c. intent (mw c) = intent c"
    and "t_thrown (h w users (mw (Conversation r d))) = None \<Longrightarrow>
         responses (t_conv (h w users (mw (Conversation r d)))) \<noteq> []"
  shows "serve mw table w users r d = h w users (mw (Conversation r d))"
  using assms by (auto simp add: serve_def Let_def)

lemma serve_count:
  assumes mw: "\<And>c. intent (mw c) = intent c"
    and tab: "\<And>n h w users c. (n, h) \<in> set table \<Longrightarrow> n \<noteq> fb \<Longrightarrow>
               data_fallbackCount (t_conv (h w users c)) = data_fallbackCount c"
    and r: "intent r \<noteq> fb"
  shows "data_fallbackCount (t_conv (serve mw table w users r d)) =
         data_fallbackCount (mw (Conversation r d))"
proof (cases "map_of table (intent r)")
  case None
  then show ?thesis by (simp add: serve_def mw)
next
  case (Some h)
  then have "(intent r, h) \<in> set table" by (rule map_of_SomeD)
  from tab [OF this r] Some show ?thesis by (simp add: serve_def mw Let_def)
qed

lemma handlers_keep_count [simp]:
  "data_fallbackCount (welcome_intent c) = data_fallbackCount c"
  "data_fallbackCount (quit c) = data_fallbackCount c"
  "data_fallbackCount (hours c) = data_fallbackCount c"
  "data_fallbackCount (noInput c) = data_fallbackCount c"
  "data_fallbackCount (reminder c) = data_fallbackCount c"
  "data_fallbackCount (notification c) = data_fallbackCount c"
  "data_fallbackCount (setupPushNotifications c) = data_fallbackCount c"
  "data_fallbackCount (classCanceled c) = data_fallbackCount c"
  "data_fallbackCount (setupUpdates c) = data_fallbackCount c"
  "data_fallbackCount (configureUpdates c) = data_fallbackCount c"
  "data_fallbackCount (setupRoutine c) = data_fallbackCount c"
  "data_fallbackCount (configureRoutine c) = data_fallbackCount c"
  "data_fallbackCount (Welcome c) = data_fallbackCount c"
  "data_fallbackCount (Quit c) = data_fallbackCount c"
  "data_fallbackCount (Hours c) = data_fallbackCount c"
  "data_fallbackCount (No_Input c) = data_fallbackCount c"
  "data_fallbackCount (Setup_Updates c) = data_fallbackCount c"
  "data_fallbackCount (Confirm_Updates c) = data_fallbackCount c"
  "data_fallbackCount (Setup_Push_Notifications c) = data_fallbackCount c"
  "data_fallbackCount (Class_Canceled c) = data_fallbackCount c"
  by (simp_all add: handler_defs Let_def)

lemma turn_handlers_keep_count [simp]:
  "data_fallbackCount (t_conv (classList w users c)) = data_fallbackCount c"
  "data_fallbackCount (t_conv (start_Class_List w users c)) = data_fallbackCount c"
  "data_fallbackCount (t_conv (Class_List w users c)) = data_fallbackCount c"
  "data_fallbackCount (t_conv (configurePushNotifications users c)) = data_fallbackCount c"
  "data_fallbackCount (t_conv (Confirm_Push_Notifications users c)) = data_fallbackCount c"
  "data_fallbackCount (t_conv (cancelClass w users c)) = data_fallbackCount c"
  "data_fallbackCount (t_conv (Cancel_Class w users c)) = data_fallbackCount c"
  by (simp_all add: turn_handler_defs Let_def split: sum.splits)

lemma intents_keep_count:
  "(n, h) \<in> set intents \<Longrightarrow> n \<noteq> ''fallback'' \<Longrightarrow>
   data_fallbackCount (t_conv (h w users c)) = data_fallbackCount c"
  by (auto simp add: intents_def)

lemma start_intents_keep_count:
  "(n, h) \<in> set start_intents \<Longrightarrow> n \<noteq> ''Fallback'' \<Longrightarrow>
   data_fallbackCount (t_conv (h w users c)) = data_fallbackCount c"
  by (auto simp add: start_intents_def)

lemma intents_2_keep_count:
  "(n, h) \<in> set intents_2 \<Longrightarrow> n \<noteq> ''Fallback'' \<Longrightarrow>
   data_fallbackCount (t_conv (h w users c)) = data_fallbackCount c"
  by (auto simp add: intents_2_def)

lemma middleware_resets:
  "intent c \<noteq> ''fallback'' \<Longrightarrow> data_fallbackCount (middleware c) = Num 0"
  by (simp add: middleware_def)

lemma middleware_Fallback_resets:
  "intent c \<noteq> ''Fallback'' \<Longrightarrow> data_fallbackCount (middleware_Fallback c) = Num 0"
  by (simp add: middleware_Fallback_def)

text \<open>
  Claim C5. For every turn whose intent is not the fallback intent, the fallback counter
  of the session is 0 after the turn, whatever it was before: in the first file of
  src/unnamed/part\_000 (fallback intent \<^verbatim>\<open>fallback\<close>), in src/start/functions/index.js and
  in the second file of part\_000 (fallback intent \<^verbatim>\<open>Fallback\<close>). An intent with no handler
  and a handler that throws are turns too: the counter is 0 when they fail.
\<close>

theorem non_fallback_turn_resets_counter:
  "(intent r \<noteq> ''fallback'' \<longrightarrow>
      data_fallbackCount (t_conv (fulfillment w users r d)) = Num 0) \<and>
   (intent r \<noteq> ''Fallback'' \<longrightarrow>
      data_fallbackCount (t_conv (start_fulfillment w users r d)) = Num 0 \<and>
      data_fallbackCount (t_conv (fulfillment_2 w users r d)) = Num 0)"
proof (intro conjI impI)
  assume r: "intent r \<noteq> ''fallback''"
  show "data_fallbackCount (t_conv (fulfillment w users r d)) = Num 0"
    unfolding fulfillment_def
    by (subst serve_count [where fb = "''fallback''"])
       (simp_all add: intents_keep_count r middleware_resets)
next
  assume r: "intent r \<noteq> ''Fallback''"
  show "data_fallbackCount (t_conv (start_fulfillment w users r d)) = Num 0"
    unfolding start_fulfillment_def
    by (subst serve_count [where fb = "''Fallback''"])
       (simp_all add: start_intents_keep_count r middleware_Fallback_resets)
  show "data_fallbackCount (t_conv (fulfillment_2 w users r d)) = Num 0"
    unfolding fulfillment_2_def
    by (subst serve_count [where fb = "''Fallback''"])
       (simp_all add: intents_2_keep_count r middleware_Fallback_resets)
qed

theorem non_fallback_turn_resets_counter_witness:
  "intent (example_request ''hours'') \<noteq> ''fallback'' \<and>
   data_fallbackCount
     (t_conv (fulfillment (example_world Monday) [] (example_request ''hours'') (Num 2))) = Num 0 \<and>
   intent (example_request ''Class List'') \<noteq> ''Fallback'' \<and>
   data_fallbackCount
     (t_conv (start_fulfillment (example_world Sunday) [] (example_request ''Class List'') NaN))
     = Num 0 \<and>
   data_fallbackCount
     (t_conv (fulfillment_2 (example_world Sunday) [] (example_request ''Class List'') (Num 1)))
     = Num 0"
  using non_fallback_turn_resets_counter
          [of "example_request ''hours''" "example_world Monday" "[]" "Num 2"]
        non_fallback_turn_resets_counter
          [of "example_request ''Class List''" "example_world Sunday" "[]" "NaN"]
        non_fallback_turn_resets_counter
          [of "example_request ''Class List''" "example_world Sunday" "[]" "Num 1"]
  by (simp add: example_request_def)

subsection \<open>The fallback escalation\<close>

lemma fallback_steps:
  "data_fallbackCount c = Num 0 \<Longrightarrow>
     fallback c = ask (Simple ''Sorry, what was that?'') (c\<lparr>data_fallbackCount := Num 1\<rparr>)"
  "data_fallbackCount c = Num 1 \<Longrightarrow>
     fallback c = ask (Simple (''I didn't quite get that. I can tell you our hours '' @
                    ''or what classes we offer each day.'')) (c\<lparr>data_fallbackCount := Num 2\<rparr>)"
  "data_fallbackCount c = Num 2 \<Longrightarrow>
     fallback c = close (Simple (''Sorry, I'm still having trouble. '' @
                    ''So let's stop here for now. Bye.'')) (c\<lparr>data_fallbackCount := Num 3\<rparr>)"
  by (simp_all add: fallback_def Let_def)

lemma Fallback_steps:
  "data_fallbackCount c = Num 0 \<Longrightarrow>
     Fallback c = ask (Simple ''Sorry, what was that?'') (c\<lparr>data_fallbackCount := Num 1\<rparr>)"
  "data_fallbackCount c = Num 1 \<Longrightarrow>
     Fallback c = ask (Simple (''I didn't quite get that. I can tell you our hours '' @
                    ''or what classes we offer each day.'')) (c\<lparr>data_fallbackCount := Num 2\<rparr>)"
  "data_fallbackCount c = Num 2 \<Longrightarrow>
     Fallback c = close (Simple (''Sorry, I'm still having trouble. '' @
                    ''So let's stop here for now. Bye.'')) (c\<lparr>data_fallbackCount := Num 3\<rparr>)"
  by (simp_all add: Fallback_def Let_def)

lemma middleware_on_fallback:
  "intent r = ''fallback'' \<Longrightarrow> d = NoCount \<or> d = Num 0 \<Longrightarrow>
     middleware (Conversation r d) = Conversation r (Num 0)"
  "intent r = ''fallback'' \<Longrightarrow> n \<noteq> 0 \<Longrightarrow>
     middleware (Conversation r (Num n)) = Conversation r (Num n)"
  by (auto simp add: middleware_def Conversation_def)

lemma middleware_Fallback_on_Fallback:
  "intent r = ''Fallback'' \<Longrightarrow> d = NoCount \<or> d = Num 0 \<Longrightarrow>
     middleware_Fallback (Conversation r d) = Conversation r (Num 0)"
  "intent r = ''Fallback'' \<Longrightarrow> n \<noteq> 0 \<Longrightarrow>
     middleware_Fallback (Conversation r (Num n)) = Conversation r (Num n)"
  by (auto simp add: middleware_Fallback_def Conversation_def)

lemma fulfillment_on_fallback:
  "intent r = ''fallback'' \<Longrightarrow>
   fulfillment w users r d = resolved users (fallback (middleware (Conversation r d)))"
  by (simp add: fulfillment_def serve_def intents_def Let_def)

lemma start_fulfillment_on_Fallback:
  "intent r = ''Fallback'' \<Longrightarrow>
   start_fulfillment w users r d =
     resolved users (Fallback (middleware_Fallback (Conversation r d)))"
  by (simp add: start_fulfillment_def serve_def start_intents_def Let_def)

lemma fulfillment_2_on_Fallback:
  "intent r = ''Fallback'' \<Longrightarrow>
   fulfillment_2 w users r d =
     resolved users (Fallback (middleware_Fallback (Conversation r d)))"
  by (simp add: fulfillment_2_def serve_def intents_2_def Let_def)

lemma reply_resolved_ask:
  "reply (resolved users (ask x (Conversation r d\<lparr>data_fallbackCount := e\<rparr>))) = ([x], True)"
  "reply (resolved users (close x (Conversation r d\<lparr>data_fallbackCount := e\<rparr>))) = ([x], False)"
  by (simp_all add: reply_def resolved_def ask_def close_def Conversation_def)

text \<open>
  An application whose first three fallback turns are the three steps goes through them
  in this order in every session of fallback turns, and stops at the third.
\<close>

lemma session_escalation:
  assumes t1: "\<And>w users r d. P r \<Longrightarrow> d = NoCount \<or> d = Num 0 \<Longrightarrow>
                 reply (app w users r d) = mild_reprompt \<and> t_thrown (app w users r d) = None \<and>
                 data_fallbackCount (t_conv (app w users r d)) = Num 1"
    and t2: "\<And>w users r. P r \<Longrightarrow>
                 reply (app w users r (Num 1)) = detailed_reprompt \<and>
                 t_thrown (app w users r (Num 1)) = None \<and>
                 data_fallbackCount (t_conv (app w users r (Num 1))) = Num 2"
    and t3: "\<And>w users r. P r \<Longrightarrow> reply (app w users r (Num 2)) = closing_message"
    and d: "d = NoCount \<or> d = Num 0"
    and all: "\<forall>(w, r) \<in> set turns. P r"
  shows "map reply (session app users d turns) =
         take (length turns) [mild_reprompt, detailed_reprompt, closing_message]"
proof (cases turns)
  case Nil
  then show ?thesis by simp
next
  case turns: (Cons a as)
  obtain w1 r1 where a: "a = (w1, r1)" by (cases a)
  have p1: "P r1" using all turns a by simp
  note s1 = t1 [OF p1 d, of w1 users]
  have open1: "expectUserResponse (t_conv (app w1 users r1 d))"
    using s1 by (simp add: reply_def mild_reprompt_def)
  show ?thesis
  proof (cases as)
    case Nil
    then show ?thesis using turns a s1 open1 by (simp add: Let_def)
  next
    case as: (Cons b bs)
    obtain w2 r2 where b: "b = (w2, r2)" by (cases b)
    have p2: "P r2" using all turns as b by simp
    note s2 = t2 [OF p2, of w2 "t_users (app w1 users r1 d)"]
    have open2:
      "expectUserResponse (t_conv (app w2 (t_users (app w1 users r1 d)) r2 (Num 1)))"
      using s2 by (simp add: reply_def detailed_reprompt_def)
    show ?thesis
    proof (cases bs)
      case Nil
      then show ?thesis using turns as a b s1 s2 open1 open2 by (simp add: Let_def)
    next
      case bs: (Cons c cs)
      obtain w3 r3 where c: "c = (w3, r3)" by (cases c)
      have p3: "P r3" using all turns as bs c by simp
      note s3 = t3 [OF p3, of w3
          "t_users (app w2 (t_users (app w1 users r1 d)) r2 (Num 1))"]
      have closed3:
        "\<not> expectUserResponse
             (t_conv (app w3 (t_users (app w2 (t_users (app w1 users r1 d)) r2 (Num 1)))
                        r3 (Num 2)))"
        using s3 by (simp add: reply_def closing_message_def)
      show ?thesis
        using turns as bs a b c s1 s2 s3 open1 open2 closed3 by (simp add: Let_def)
    qed
  qed
qed

text \<open>
  Claim C1. In a session that starts with fallback count 0 (or with no count yet) and
  whose turns all have the fallback intent, the first turn gets the mild reprompt, the
  second the detailed reprompt that lists the topics, and the third the closing message,
  which ends the session: the session is open after the first and the second turn, and
  no turn after the third is served. This holds for the three index.js files.
\<close>

theorem fallback_escalation:
  assumes "d = NoCount \<or> d = Num 0"
  shows "((\<forall>(w, r) \<in> set turns. intent r = ''fallback'') \<longrightarrow>
            map reply (session fulfillment users d turns) =
              take (length turns) [mild_reprompt, detailed_reprompt, closing_message]) \<and>
         ((\<forall>(w, r) \<in> set turns. intent r = ''Fallback'') \<longrightarrow>
            map reply (session start_fulfillment users d turns) =
              take (length turns) [mild_reprompt, detailed_reprompt, closing_message] \<and>
            map reply (session fulfillment_2 users d turns) =
              take (length turns) [mild_reprompt, detailed_reprompt, closing_message])"
proof (intro conjI impI)
  assume all: "\<forall>(w, r) \<in> set turns. intent r = ''fallback''"
  show "map reply (session fulfillment users d turns) =
          take (length turns) [mild_reprompt, detailed_reprompt, closing_message]"
  proof (rule session_escalation [where P = "\<lambda>r. intent r = ''fallback''", OF _ _ _ assms all])
    fix w users and r :: request and d :: count
    assume "intent r = ''fallback''" and "d = NoCount \<or> d = Num 0"
    then show "reply (fulfillment w users r d) = mild_reprompt \<and>
        t_thrown (fulfillment w users r d) = None \<and>
        data_fallbackCount (t_conv (fulfillment w users r d)) = Num 1"
      by (simp add: fulfillment_on_fallback middleware_on_fallback fallback_steps
          reply_resolved_ask mild_reprompt_def)
  next
    fix w users and r :: request
    assume "intent r = ''fallback''"
    then show "reply (fulfillment w users r (Num 1)) = detailed_reprompt \<and>
        t_thrown (fulfillment w users r (Num 1)) = None \<and>
        data_fallbackCount (t_conv (fulfillment w users r (Num 1))) = Num 2"
      by (simp add: fulfillment_on_fallback middleware_on_fallback fallback_steps
          reply_resolved_ask detailed_reprompt_def)
  next
    fix w users and r :: request
    assume "intent r = ''fallback''"
    then show "reply (fulfillment w users r (Num 2)) = closing_message"
      by (simp add: fulfillment_on_fallback middleware_on_fallback fallback_steps
          reply_resolved_ask closing_message_def)
  qed
next
  assume all: "\<forall>(w, r) \<in> set turns. intent r = ''Fallback''"
  show "map reply (session start_fulfillment users d turns) =
          take (length turns) [mild_reprompt, detailed_reprompt, closing_message]"
  proof (rule session_escalation [where P = "\<lambda>r. intent r = ''Fallback''", OF _ _ _ assms all])
    fix w users and r :: request and d :: count
    assume "intent r = ''Fallback''" and "d = NoCount \<or> d = Num 0"
    then show "reply (start_fulfillment w users r d) = mild_reprompt \<and>
        t_thrown (start_fulfillment w users r d) = None \<and>
        data_fallbackCount (t_conv (start_fulfillment w users r d)) = Num 1"
      by (simp add: start_fulfillment_on_Fallback middleware_Fallback_on_Fallback
          Fallback_steps reply_resolved_ask mild_reprompt_def)
  next
    fix w users and r :: request
    assume "intent r = ''Fallback''"
    then show "reply (start_fulfillment w users r (Num 1)) = detailed_reprompt \<and>
        t_thrown (start_fulfillment w users r (Num 1)) = None \<and>
        data_fallbackCount (t_conv (start_fulfillment w users r (Num 1))) = Num 2"
      by (simp add: start_fulfillment_on_Fallback middleware_Fallback_on_Fallback
          Fallback_steps reply_resolved_ask detailed_reprompt_def)
  next
    fix w users and r :: request
    assume "intent r = ''Fallback''"
    then show "reply (start_fulfillment w users r (Num 2)) = closing_message"
      by (simp add: start_fulfillment_on_Fallback middleware_Fallback_on_Fallback
          Fallback_steps reply_resolved_ask closing_message_def)
  qed
  show "map reply (session fulfillment_2 users d turns) =
          take (length turns) [mild_reprompt, detailed_reprompt, closing_message]"
  proof (rule session_escalation [where P = "\<lambda>r. intent r = ''Fallback''", OF _ _ _ assms all])
    fix w users and r :: request and d :: count
    assume "intent r = ''Fallback''" and "d = NoCount \<or> d = Num 0"
    then show "reply (fulfillment_2 w users r d) = mild_reprompt \<and>
        t_thrown (fulfillment_2 w users r d) = None \<and>
        data_fallbackCount (t_conv (fulfillment_2 w users r d)) = Num 1"
      by (simp add: fulfillment_2_on_Fallback middleware_Fallback_on_Fallback
          Fallback_steps reply_resolved_ask mild_reprompt_def)
  next
    fix w users and r :: request
    assume "intent r = ''Fallback''"
    then show "reply (fulfillment_2 w users r (Num 1)) = detailed_reprompt \<and>
        t_thrown (fulfillment_2 w users r (Num 1)) = None \<and>
        data_fallbackCount (t_conv (fulfillment_2 w users r (Num 1))) = Num 2"
      by (simp add: fulfillment_2_on_Fallback middleware_Fallback_on_Fallback
          Fallback_steps reply_resolved_ask detailed_reprompt_def)
  next
    fix w users and r :: request
    assume "intent r = ''Fallback''"
    then show "reply (fulfillment_2 w users r (Num 2)) = closing_message"
      by (simp add: fulfillment_2_on_Fallback middleware_Fallback_on_Fallback
          Fallback_steps reply_resolved_ask closing_message_def)
  qed
qed

theorem fallback_escalation_witness:
  "map reply
     (session fulfillment [] (Num 0)
        [(example_world Monday, example_request ''fallback''),
         (example_world Monday, example_request ''fallback''),
         (example_world Monday, example_request ''fallback''),
         (example_world Monday, example_request ''fallback'')]) =
     [mild_reprompt, detailed_reprompt, closing_message] \<and>
   map reply
     (session start_fulfillment [] NoCount
        [(example_world Monday, example_request ''Fallback''),
         (example_world Monday, example_request ''Fallback'')]) =
     [mild_reprompt, detailed_reprompt] \<and>
   map reply
     (session fulfillment_2 [] NoCount
        [(example_world Monday, example_request ''Fallback''),
         (example_world Monday, example_request ''Fallback''),
         (example_world Monday, example_request ''Fallback'')]) =
     [mild_reprompt, detailed_reprompt, closing_message]"
  using fallback_escalation
          [of "Num 0"
              "[(example_world Monday, example_request ''fallback''),
                (example_world Monday, example_request ''fallback''),
                (example_world Monday, example_request ''fallback''),
                (example_world Monday, example_request ''fallback'')]" "[]"]
        fallback_escalation
          [of NoCount
              "[(example_world Monday, example_request ''Fallback''),
                (example_world Monday, example_request ''Fallback'')]" "[]"]
        fallback_escalation
          [of NoCount
              "[(example_world Monday, example_request ''Fallback''),
                (example_world Monday, example_request ''Fallback''),
                (example_world Monday, example_request ''Fallback'')]" "[]"]
  by (simp add: example_request_def)

subsection \<open>Turns of the other intents\<close>

lemma middleware_not_fallback:
  "intent r \<noteq> ''fallback'' \<Longrightarrow> middleware (Conversation r d) = Conversation r (Num 0)"
  by (simp add: middleware_def Conversation_def)

lemma middleware_Fallback_not_Fallback:
  "intent r \<noteq> ''Fallback'' \<Longrightarrow>
   middleware_Fallback (Conversation r d) = Conversation r (Num 0)"
  by (simp add: middleware_Fallback_def Conversation_def)

lemma fulfillment_on:
  "intent r = ''classList'' \<Longrightarrow>
     fulfillment w users r d = classList w users (Conversation r (Num 0))"
  "intent r = ''configurePushNotifications'' \<Longrightarrow>
     fulfillment w users r d = configurePushNotifications users (Conversation r (Num 0))"
  "intent r = ''cancelClass'' \<Longrightarrow>
     fulfillment w users r d = cancelClass w users (Conversation r (Num 0))"
  unfolding fulfillment_def
  by (subst serve_found; simp add: intents_def middleware_not_fallback)+

lemma start_fulfillment_on:
  "intent r = ''Class List'' \<Longrightarrow>
     start_fulfillment w users r d = start_Class_List w users (Conversation r (Num 0))"
  unfolding start_fulfillment_def
  by (subst serve_found; simp add: start_intents_def middleware_Fallback_not_Fallback)

lemma fulfillment_2_on:
  "intent r = ''Class List'' \<Longrightarrow>
     fulfillment_2 w users r d = Class_List w users (Conversation r (Num 0))"
  "intent r = ''Confirm Push Notifications'' \<Longrightarrow>
     fulfillment_2 w users r d = Confirm_Push_Notifications users (Conversation r (Num 0))"
  "intent r = ''Cancel Class'' \<Longrightarrow>
     fulfillment_2 w users r d = Cancel_Class w users (Conversation r (Num 0))"
  unfolding fulfillment_2_def
  by (subst serve_found; simp add: intents_2_def middleware_Fallback_not_Fallback)+

text \<open>A no-input turn: the handler's when it has responded, a failed turn when not.\<close>

lemma no_input_served:
  "intent r = ''noInput'' \<Longrightarrow>
     fulfillment w users r d =
       (if responses (noInput (Conversation r (Num 0))) = []
        then rejected users (noInput (Conversation r (Num 0))) no_response_set
        else resolved users (noInput (Conversation r (Num 0))))"
  "intent r = ''No Input'' \<Longrightarrow>
     start_fulfillment w users r d =
       (if responses (No_Input (Conversation r (Num 0))) = []
        then rejected users (No_Input (Conversation r (Num 0))) no_response_set
        else resolved users (No_Input (Conversation r (Num 0))))"
  "intent r = ''No Input'' \<Longrightarrow>
     fulfillment_2 w users r d =
       (if responses (No_Input (Conversation r (Num 0))) = []
        then rejected users (No_Input (Conversation r (Num 0))) no_response_set
        else resolved users (No_Input (Conversation r (Num 0))))"
  by (simp_all add: fulfillment_def start_fulfillment_def fulfillment_2_def serve_def
      intents_def start_intents_def intents_2_def middleware_not_fallback
      middleware_Fallback_not_Fallback resolved_def rejected_def Let_def)

subsection \<open>No input\<close>

lemma parseInt_examples:
  "parseInt_string ''two'' = None"
  "parseInt_string ''2'' = Some 2"
  "parseInt_string ''0'' = Some 0"
  "parseInt_string '' 1'' = Some 1"
  "parseInt_string ''-0x1f'' = Some (- 31)"
  "parseInt_string ''12px'' = Some 12"
  "parseInt_string ''0x'' = None"
  "parseInt_string [] = None"
  by (simp_all add: parseInt_string_def digit_value_def StrWhiteSpaceChar_def Let_def)

text \<open>
  Claim C10, as it is stated, fails in its last part: the turn does not produce an empty
  response. With a reprompt count that does not parse and the final-reprompt flag false,
  the handler puts no response in the conversation, and the request then fails with the
  error "No response has been set".
\<close>

theorem no_input_turn_fails_counterexample:
  "t_thrown (fulfillment (example_world Monday) []
      ((example_request ''noInput'')\<lparr>arguments := unparsable_arguments\<rparr>) (Num 1)) =
     Some (Error (''No response has been set. '' @
       ''Is this being used in an async call that was not '' @
       ''returned as a promise to the intent handler?''))"
  by (simp add: no_input_served noInput_def example_request_def unparsable_arguments_def
      parseInt_examples no_response_set_def)

text \<open>
  Claim C10, amended. On a no-input turn whose reprompt count parses neither to 0 nor to
  1 (a count that does not parse at all is such a count) and whose final-reprompt flag is
  absent or false, the handler emits no message: it neither asks nor closes, and leaves
  the conversation as the middleware made it, with no response in it. The turn then
  produces no response, not an empty one: the request fails with the error "No response
  has been set".
\<close>

theorem no_input_without_message:
  assumes "parseInt (arguments r ''REPROMPT_COUNT'') \<noteq> Some 0"
    and "parseInt (arguments r ''REPROMPT_COUNT'') \<noteq> Some 1"
    and "\<not> truthy (arguments r ''IS_FINAL_REPROMPT'')"
  shows "noInput (Conversation r (Num 0)) = Conversation r (Num 0) \<and>
         No_Input (Conversation r (Num 0)) = Conversation r (Num 0) \<and>
         (intent r = ''noInput'' \<longrightarrow>
            fulfillment w users r d =
              rejected users (Conversation r (Num 0)) no_response_set \<and>
            responses (t_conv (fulfillment w users r d)) = [] \<and>
            t_thrown (fulfillment w users r d) = Some no_response_set) \<and>
         (intent r = ''No Input'' \<longrightarrow>
            start_fulfillment w users r d =
              rejected users (Conversation r (Num 0)) no_response_set \<and>
            responses (t_conv (start_fulfillment w users r d)) = [] \<and>
            t_thrown (start_fulfillment w users r d) = Some no_response_set \<and>
            fulfillment_2 w users r d =
              rejected users (Conversation r (Num 0)) no_response_set \<and>
            responses (t_conv (fulfillment_2 w users r d)) = [] \<and>
            t_thrown (fulfillment_2 w users r d) = Some no_response_set)"
proof -
  have same: "noInput (Conversation r (Num 0)) = Conversation r (Num 0)"
    "No_Input (Conversation r (Num 0)) = Conversation r (Num 0)"
    using assms by (simp_all add: noInput_def No_Input_def)
  then show ?thesis by (simp add: no_input_served)
qed

theorem no_input_without_message_witness:
  "fulfillment (example_world Monday) []
     ((example_request ''noInput'')\<lparr>arguments := unparsable_arguments\<rparr>) (Num 1) =
     rejected []
       (Conversation ((example_request ''noInput'')\<lparr>arguments := unparsable_arguments\<rparr>)
          (Num 0))
       no_response_set \<and>
   t_thrown (start_fulfillment (example_world Monday) []
      ((example_request ''No Input'')\<lparr>arguments := third_reprompt_arguments\<rparr>) (Num 1)) =
     Some no_response_set \<and>
   t_thrown (fulfillment_2 (example_world Monday) []
      ((example_request ''No Input'')\<lparr>arguments := third_reprompt_arguments\<rparr>) (Num 1)) =
     Some no_response_set \<and>
   responses (t_conv (fulfillment_2 (example_world Monday) []
      ((example_request ''No Input'')\<lparr>arguments := third_reprompt_arguments\<rparr>) (Num 1))) =
     []"
  using no_input_without_message
          [of "(example_request ''noInput'')\<lparr>arguments := unparsable_arguments\<rparr>"
              "example_world Monday" "[]" "Num 1"]
        no_input_without_message
          [of "(example_request ''No Input'')\<lparr>arguments := third_reprompt_arguments\<rparr>"
              "example_world Monday" "[]" "Num 1"]
  by (simp add: example_request_def unparsable_arguments_def third_reprompt_arguments_def
      parseInt_examples)

subsection \<open>The class list\<close>

lemma Set_add_present: "x \<in> set s \<Longrightarrow> Set_add s x = s"
  by (simp add: Set_add_def)

lemma Set_add_new: "x \<notin> set s \<Longrightarrow> Set_add s x = s @ [x]"
  by (simp add: Set_add_def)

lemma foldl_Set_add:
  "foldl Set_add acc xs = acc @ dedup_first (filter (\<lambda>y. y \<notin> set acc) xs)"
proof (induction xs arbitrary: acc)
  case Nil
  show ?case by simp
next
  case (Cons x xs)
  show ?case
  proof (cases "x \<in> set acc")
    case True
    then show ?thesis by (simp add: Set_add_present Cons.IH)
  next
    case False
    have "filter (\<lambda>y. y \<notin> set (acc @ [x])) xs =
          filter (\<lambda>y. y \<noteq> x) (filter (\<lambda>y. y \<notin> set acc) xs)"
      by (auto intro: filter_cong)
    with False show ?thesis by (simp add: Set_add_new Cons.IH)
  qed
qed

lemma new_Set_dedup_first: "new_Set xs = dedup_first xs"
  by (simp add: new_Set_def foldl_Set_add)

lemma set_dedup_first: "set (dedup_first xs) = set xs"
proof (induction xs rule: dedup_first.induct)
  case 1
  show ?case by simp
next
  case (2 x xs)
  then show ?case by auto
qed

lemma distinct_dedup_first: "distinct (dedup_first xs)"
proof (induction xs rule: dedup_first.induct)
  case 1
  show ?case by simp
next
  case (2 x xs)
  then show ?case by (simp add: set_dedup_first)
qed

lemma dedup_first_distinct: "distinct xs \<Longrightarrow> dedup_first xs = xs"
proof (induction xs)
  case Nil
  show ?case by simp
next
  case (Cons x xs)
  then have "filter (\<lambda>y. y \<noteq> x) xs = xs" by (auto intro: filter_True)
  with Cons show ?case by simp
qed

lemma classes_of_found:
  "days (ToString day) = Some entries \<Longrightarrow>
   classes_of days day = Inr (join '', '' (dedup_first (map name_at_time entries)))"
proof -
  have "(\<lambda>d. name d @ '' at '' @ startTime d) = name_at_time"
    by (rule ext) (simp add: name_at_time_def)
  then show "days (ToString day) = Some entries \<Longrightarrow> ?thesis"
    by (simp add: classes_of_def new_Set_dedup_first)
qed

lemma classes_of_missing:
  "days (ToString day) = None \<Longrightarrow> classes_of days day = Inl TypeError"
  by (simp add: classes_of_def)

text \<open>
  Claim C6. The class list of a day is the "name at time" strings of the day's entries,
  each kept once, in the order of their first occurrences, joined with a comma and a
  space; the result has no string twice and has every string of the entries. It is the
  list the message of the class-list handlers carries. The entries (Yoga, 6am),
  (Yoga, 6am), (Spin, 7am) give "Yoga at 6am, Spin at 7am".
\<close>

theorem class_list_deduplicated:
  assumes "schedule_days w (ToString day) = Some entries"
    and "day = resolve_day (parameters_day r) (today w)"
    and "labels = dedup_first (map name_at_time entries)"
  shows "classes_of (schedule_days w) day = Inr (join '', '' labels) \<and>
         distinct labels \<and> set labels = name_at_time ` set entries \<and>
         (intent r = ''classList'' \<longrightarrow>
            hd (responses (t_conv (fulfillment w users r d))) =
              Simple (''On '' @ ToString day @ '' we offer the following classes: '' @
                join '', '' labels @ ''. '' @
                ''If you'd like, I can send you reminders about our classes. '' @
                ''Can I help you with anything else?'')) \<and>
         (intent r = ''Class List'' \<longrightarrow>
            hd (responses (t_conv (start_fulfillment w users r d))) =
              Simple (''On '' @ ToString day @ '' we offer the following classes: '' @
                join '', '' labels @ ''. '' @ ''Can I help you with anything else?'') \<and>
            hd (responses (t_conv (fulfillment_2 w users r d))) =
              Simple (''On '' @ ToString day @ '' we offer the following classes: '' @
                join '', '' labels @ ''. '' @
                (if truthy (arguments r ''UPDATES'')
                 then ''Hope to see you soon at Action Gym!''
                 else ''Would you like to receive daily reminders of upcoming '' @
                      ''classes, subscribe to notifications about cancelations, or can I help '' @
                      ''you with anything else?'')))"
proof -
  have found: "classes_of (schedule_days w) (resolve_day (parameters_day r) (today w)) =
               Inr (join '', '' labels)"
    using assms by (simp add: classes_of_found)
  have "distinct labels" "set labels = name_at_time ` set entries"
    using assms(3) by (simp_all add: distinct_dedup_first set_dedup_first)
  moreover have "intent r = ''classList'' \<Longrightarrow>
      hd (responses (t_conv (fulfillment w users r d))) =
        Simple (''On '' @ ToString day @ '' we offer the following classes: '' @
          join '', '' labels @ ''. '' @
          ''If you'd like, I can send you reminders about our classes. '' @
          ''Can I help you with anything else?'')"
    using found assms(2) by (simp add: fulfillment_on classList_def Let_def)
  moreover have "intent r = ''Class List'' \<Longrightarrow>
      hd (responses (t_conv (start_fulfillment w users r d))) =
        Simple (''On '' @ ToString day @ '' we offer the following classes: '' @
          join '', '' labels @ ''. '' @ ''Can I help you with anything else?'')"
    using found assms(2) by (simp add: start_fulfillment_on start_Class_List_def Let_def)
  moreover have "intent r = ''Class List'' \<Longrightarrow>
      hd (responses (t_conv (fulfillment_2 w users r d))) =
        Simple (''On '' @ ToString day @ '' we offer the following classes: '' @
          join '', '' labels @ ''. '' @
          (if truthy (arguments r ''UPDATES'')
           then ''Hope to see you soon at Action Gym!''
           else ''Would you like to receive daily reminders of upcoming '' @
                ''classes, subscribe to notifications about cancelations, or can I help '' @
                ''you with anything else?''))"
    using found assms(2) by (simp add: fulfillment_2_on Class_List_def Let_def)
  ultimately show ?thesis using found assms(2) by simp
qed

lemma example_labels:
  "dedup_first (map name_at_time example_entries) = [''Yoga at 6am'', ''Spin at 7am'']"
  by (simp add: example_entries_def name_at_time_def)

theorem class_list_deduplicated_witness:
  "classes_of example_schedule (Some ''Monday'') = Inr ''Yoga at 6am, Spin at 7am'' \<and>
   hd (responses (t_conv (fulfillment (example_world Monday) []
         ((example_request ''classList'')\<lparr>parameters_day := Some ''Monday''\<rparr>) NoCount))) =
     Simple (''On Monday we offer the following classes: Yoga at 6am, Spin at 7am. '' @
       ''If you'd like, I can send you reminders about our classes. '' @
       ''Can I help you with anything else?'') \<and>
   hd (responses (t_conv (start_fulfillment (example_world Monday) []
         ((example_request ''Class List'')\<lparr>parameters_day := Some ''Monday''\<rparr>) NoCount))) =
     Simple (''On Monday we offer the following classes: Yoga at 6am, Spin at 7am. '' @
       ''Can I help you with anything else?'')"
  using class_list_deduplicated
          [of "example_world Monday" "Some ''Monday''" example_entries
              "(example_request ''classList'')\<lparr>parameters_day := Some ''Monday''\<rparr>"
              "[''Yoga at 6am'', ''Spin at 7am'']" "[]" NoCount]
        class_list_deduplicated
          [of "example_world Monday" "Some ''Monday''" example_entries
              "(example_request ''Class List'')\<lparr>parameters_day := Some ''Monday''\<rparr>"
              "[''Yoga at 6am'', ''Spin at 7am'']" "[]" NoCount]
  by (simp add: example_labels example_world_def example_schedule_def example_request_def
      resolve_day_def)

text \<open>
  Claim C8. A class-list request whose resolved day is not a key of the schedule fails
  at the lookup: the handler throws a TypeError, nothing catches it, and no response has
  been made. The handlers have no other branch for a missing day.
\<close>

theorem missing_day_fails:
  assumes "schedule_days w (ToString (resolve_day (parameters_day r) (today w))) = None"
  shows "(intent r = ''classList'' \<longrightarrow>
            t_thrown (fulfillment w users r d) = Some TypeError \<and>
            responses (t_conv (fulfillment w users r d)) = []) \<and>
         (intent r = ''Class List'' \<longrightarrow>
            t_thrown (start_fulfillment w users r d) = Some TypeError \<and>
            responses (t_conv (start_fulfillment w users r d)) = [] \<and>
            t_thrown (fulfillment_2 w users r d) = Some TypeError \<and>
            responses (t_conv (fulfillment_2 w users r d)) = [])"
  using assms
  by (simp add: fulfillment_on start_fulfillment_on fulfillment_2_on classList_def
      start_Class_List_def Class_List_def classes_of_missing Let_def)

theorem missing_day_fails_witness:
  "schedule_days (example_world Monday)
     (ToString (resolve_day (Some ''Someday'') (today (example_world Monday)))) = None \<and>
   t_thrown (fulfillment (example_world Monday) []
      ((example_request ''classList'')\<lparr>parameters_day := Some ''Someday''\<rparr>) NoCount)
     = Some TypeError \<and>
   schedule_days (example_world Tuesday)
     (ToString (resolve_day None (today (example_world Tuesday)))) = None \<and>
   t_thrown (start_fulfillment (example_world Tuesday) [] (example_request ''Class List'')
      NoCount) = Some TypeError \<and>
   t_thrown (fulfillment_2 (example_world Tuesday) [] (example_request ''Class List'')
      NoCount) = Some TypeError"
  using missing_day_fails
          [of "example_world Monday"
              "(example_request ''classList'')\<lparr>parameters_day := Some ''Someday''\<rparr>"
              "[]" NoCount]
        missing_day_fails
          [of "example_world Tuesday" "example_request ''Class List''" "[]" NoCount]
  by (simp add: example_world_def example_schedule_def example_request_def resolve_day_def
      index_def DAYS_def)

lemma DAYS_getDay: "index DAYS (getDay now) = Some (weekday_name now)"
  by (cases now) (simp_all add: index_def DAYS_def)

lemma weekday_name_not_empty: "weekday_name now \<noteq> []"
  by (cases now) simp_all

lemma resolve_day_absent:
  "day = None \<or> day = Some [] \<Longrightarrow> resolve_day day now = Some (weekday_name now)"
  by (auto simp add: resolve_day_def DAYS_getDay)

lemma resolve_day_weekday_name:
  "resolve_day (Some (weekday_name now')) now = Some (weekday_name now')"
  by (simp add: resolve_day_def weekday_name_not_empty)

text \<open>
  Claim C9. When a class-list request has no day parameter (absent, or the empty string
  the platform sends for an empty slot), the day the handler uses is the name of the
  current day of the week. The message names today, and the classes it lists are those
  the schedule has under today's name; when the schedule has nothing under today's name
  the turn fails at the lookup. This is so for the class-list handler of each of the
  three files.
\<close>

theorem default_day_is_today:
  assumes "parameters_day r = None \<or> parameters_day r = Some []"
    and "now = weekday_name (today w)"
    and "classes = join '', '' (dedup_first (map name_at_time entries))"
  shows "resolve_day (parameters_day r) (today w) = Some now \<and>
         (intent r = ''classList'' \<longrightarrow>
            (schedule_days w now = None \<longrightarrow>
               t_thrown (fulfillment w users r d) = Some TypeError \<and>
               responses (t_conv (fulfillment w users r d)) = []) \<and>
            (schedule_days w now = Some entries \<longrightarrow>
               t_thrown (fulfillment w users r d) = None \<and>
               reply (fulfillment w users r d) =
                 (Simple (''On '' @ now @ '' we offer the following classes: '' @ classes @
                    ''. '' @ ''If you'd like, I can send you reminders about our classes. '' @
                    ''Can I help you with anything else?'') #
                  (if screen r
                   then [Suggestions [Suggestion_HOURS, Suggestion_REMINDER,
                           Suggestion_CANCELLATION]]
                   else []),
                  True))) \<and>
         (intent r = ''Class List'' \<longrightarrow>
            (schedule_days w now = None \<longrightarrow>
               t_thrown (start_fulfillment w users r d) = Some TypeError \<and>
               responses (t_conv (start_fulfillment w users r d)) = [] \<and>
               t_thrown (fulfillment_2 w users r d) = Some TypeError \<and>
               responses (t_conv (fulfillment_2 w users r d)) = []) \<and>
            (schedule_days w now = Some entries \<longrightarrow>
               t_thrown (start_fulfillment w users r d) = None \<and>
               reply (start_fulfillment w users r d) =
                 (Simple (''On '' @ now @ '' we offer the following classes: '' @ classes @
                    ''. '' @ ''Can I help you with anything else?'') #
                  (if screen r then [Suggestions [Suggestion_HOURS]] else []),
                  True) \<and>
               t_thrown (fulfillment_2 w users r d) = None \<and>
               reply (fulfillment_2 w users r d) =
                 (if truthy (arguments r ''UPDATES'')
                  then ([Simple (''On '' @ now @ '' we offer the following classes: '' @
                           classes @ ''. '' @ ''Hope to see you soon at Action Gym!'')],
                        False)
                  else (Simple (''On '' @ now @ '' we offer the following classes: '' @
                           classes @ ''. '' @
                           ''Would you like to receive daily reminders of upcoming '' @
                           ''classes, subscribe to notifications about cancelations, or can I help '' @
                           ''you with anything else?'') #
                        (if screen r
                         then [Suggestions [Suggestion_DAILY, Suggestion_NOTIFICATIONS,
                                 Suggestion_HOURS]]
                         else []),
                        True))))"
proof -
  have day: "resolve_day (parameters_day r) (today w) = Some now"
    using assms(1,2) by (simp add: resolve_day_absent)
  have missing: "schedule_days w now = None \<Longrightarrow>
      classes_of (schedule_days w) (Some now) = Inl TypeError"
    by (simp add: classes_of_missing)
  have found: "schedule_days w now = Some entries \<Longrightarrow>
      classes_of (schedule_days w) (Some now) = Inr classes"
    using assms(3) by (simp add: classes_of_found)
  show ?thesis
    using day missing found
    by (simp add: fulfillment_on start_fulfillment_on fulfillment_2_on classList_def
        start_Class_List_def Class_List_def Let_def)
qed

theorem default_day_is_today_witness:
  "resolve_day None Monday = Some ''Monday'' \<and>
   reply (fulfillment (example_world Monday) [] (example_request ''classList'') NoCount) =
     ([Simple (''On Monday we offer the following classes: Yoga at 6am, Spin at 7am. '' @
         ''If you'd like, I can send you reminders about our classes. '' @
         ''Can I help you with anything else?'')], True) \<and>
   reply (start_fulfillment (example_world Saturday) [] (screen_request ''Class List'')
      NoCount) =
     ([Simple (''On Saturday we offer the following classes: Pilates at 9am. '' @
         ''Can I help you with anything else?''),
       Suggestions [''Ask about hours'']], True) \<and>
   reply (fulfillment_2 (example_world Saturday) [] (example_request ''Class List'')
      NoCount) =
     ([Simple (''On Saturday we offer the following classes: Pilates at 9am. '' @
         ''Would you like to receive daily reminders of upcoming '' @
         ''classes, subscribe to notifications about cancelations, or can I help '' @
         ''you with anything else?'')], True) \<and>
   t_thrown (fulfillment_2 (example_world Friday) [] (example_request ''Class List'')
      NoCount) = Some TypeError"
proof -
  have monday: "''Yoga at 6am, Spin at 7am'' =
      join '', '' (dedup_first (map name_at_time example_entries))"
    by (simp add: example_labels)
  have saturday: "''Pilates at 9am'' =
      join '', '' (dedup_first (map name_at_time [\<lparr>name = ''Pilates'', startTime = ''9am''\<rparr>]))"
    by (simp add: name_at_time_def)
  have friday: "[] = join '', '' (dedup_first (map name_at_time []))"
    by simp
  show ?thesis
    using default_day_is_today
            [where r = "example_request ''classList''" and now = "''Monday''"
               and w = "example_world Monday" and users = "[]" and d = NoCount, OF _ _ monday]
          default_day_is_today
            [where r = "screen_request ''Class List''" and now = "''Saturday''"
               and w = "example_world Saturday" and users = "[]" and d = NoCount,
             OF _ _ saturday]
          default_day_is_today
            [where r = "example_request ''Class List''" and now = "''Saturday''"
               and w = "example_world Saturday" and users = "[]" and d = NoCount,
             OF _ _ saturday]
          default_day_is_today
            [where r = "example_request ''Class List''" and now = "''Friday''"
               and w = "example_world Friday" and users = "[]" and d = NoCount, OF _ _ friday]
    by (simp add: example_request_def screen_request_def example_world_def
        example_schedule_def no_arguments_def Suggestion_HOURS_def)
qed

subsection \<open>The subscribers\<close>

text \<open>
  Claim C3. An opt-in turn without the permission grant writes no subscriber and replies
  with the decline message. An opt-in turn with the grant adds exactly one subscriber,
  after the ones there are, with the fixed cancellation topic and the user identifier of
  the permission flow, or the conversation identifier when the flow gave none, and
  replies with the success message.
\<close>

theorem opt_in_persists_one_subscriber:
  "(intent r = ''configurePushNotifications'' \<longrightarrow>
      t_thrown (fulfillment w users r d) = None \<and>
      (truthy (arguments r ''PERMISSION'') \<longrightarrow>
         t_users (fulfillment w users r d) =
           users @ [[(''intent'', String ''classCanceled''), (''userId'', resolved_userId r)]] \<and>
         reply (fulfillment w users r d) =
           ([Simple (''Cool, I'll notify you whenever there is a cancelation. '' @
               ''Would you like anything else?'')], True)) \<and>
      (\<not> truthy (arguments r ''PERMISSION'') \<longrightarrow>
         t_users (fulfillment w users r d) = users \<and>
         reply (fulfillment w users r d) =
           ([Simple ''Okay, I won't notify you. Would you like anything else?''], True))) \<and>
   (intent r = ''Confirm Push Notifications'' \<longrightarrow>
      t_thrown (fulfillment_2 w users r d) = None \<and>
      (truthy (arguments r ''PERMISSION'') \<longrightarrow>
         t_users (fulfillment_2 w users r d) =
           users @ [[(''intent'', String ''Class Canceled''), (''userId'', resolved_userId r)]] \<and>
         reply (fulfillment_2 w users r d) =
           ([Simple (''Great, I'll notify you whenever there's a class cancelation. '' @
               ''Can I help you with anything else?'')], True)) \<and>
      (\<not> truthy (arguments r ''PERMISSION'') \<longrightarrow>
         t_users (fulfillment_2 w users r d) = users \<and>
         reply (fulfillment_2 w users r d) =
           (Simple (''Okay, I won't send you notifications about class cancelations. '' @
               ''Can I help you with anything else?'') #
            (if screen r then [Suggestions [Suggestion_CLASSES, Suggestion_HOURS]] else []),
            True)))"
  by (simp add: fulfillment_on fulfillment_2_on configurePushNotifications_def
      Confirm_Push_Notifications_def resolved_userId_def collection_add_def
      FirestoreNames_INTENT_def FirestoreNames_USER_ID_def Let_def)

theorem opt_in_persists_one_subscriber_witness:
  "t_users (fulfillment (example_world Monday) (example_users ''classCanceled'')
      ((example_request ''configurePushNotifications'')\<lparr>arguments := granted_arguments\<rparr>)
      NoCount) =
     example_users ''classCanceled'' @
     [[(''intent'', String ''classCanceled''), (''userId'', String ''user-7'')]] \<and>
   t_users (fulfillment_2 (example_world Monday) []
      ((example_request ''Confirm Push Notifications'')
         \<lparr>arguments := permission_only_arguments\<rparr>) NoCount) =
     [[(''intent'', String ''Class Canceled''), (''userId'', String ''conversation-1'')]] \<and>
   t_users (fulfillment (example_world Monday) (example_users ''classCanceled'')
      (example_request ''configurePushNotifications'') NoCount) =
     example_users ''classCanceled'' \<and>
   reply (fulfillment (example_world Monday) (example_users ''classCanceled'')
      (example_request ''configurePushNotifications'') NoCount) =
     ([Simple ''Okay, I won't notify you. Would you like anything else?''], True)"
  using opt_in_persists_one_subscriber
          [of "(example_request ''configurePushNotifications'')
                 \<lparr>arguments := granted_arguments\<rparr>"
              "example_world Monday" "example_users ''classCanceled''" NoCount]
        opt_in_persists_one_subscriber
          [of "(example_request ''Confirm Push Notifications'')
                 \<lparr>arguments := permission_only_arguments\<rparr>"
              "example_world Monday" "[]" NoCount]
        opt_in_persists_one_subscriber
          [of "example_request ''configurePushNotifications''"
              "example_world Monday" "example_users ''classCanceled''" NoCount]
  by (simp add: example_request_def granted_arguments_def permission_only_arguments_def
      no_arguments_def resolved_userId_def)

lemma handlers_keep_users [simp]:
  "t_users (classList w users c) = users"
  "t_users (start_Class_List w users c) = users"
  "t_users (Class_List w users c) = users"
  "t_users (cancelClass w users c) = users"
  "t_users (Cancel_Class w users c) = users"
  by (simp_all add: turn_handler_defs Let_def split: sum.splits)

lemma serve_users:
  assumes mw: "\<And>c. intent (mw c) = intent c"
    and tab: "\<And>n h w users c. (n, h) \<in> set table \<Longrightarrow> n \<noteq> optin \<Longrightarrow>
               t_users (h w users c) = users"
    and r: "intent r \<noteq> optin"
  shows "t_users (serve mw table w users r d) = users"
proof (cases "map_of table (intent r)")
  case None
  then show ?thesis by (simp add: serve_def mw)
next
  case (Some h)
  then have "(intent r, h) \<in> set table" by (rule map_of_SomeD)
  from tab [OF this r] Some show ?thesis by (simp add: serve_def mw Let_def)
qed

lemma intents_keep_users:
  "(n, h) \<in> set intents \<Longrightarrow> n \<noteq> ''configurePushNotifications'' \<Longrightarrow>
   t_users (h w users c) = users"
  by (auto simp add: intents_def)

lemma intents_2_keep_users:
  "(n, h) \<in> set intents_2 \<Longrightarrow> n \<noteq> ''Confirm Push Notifications'' \<Longrightarrow>
   t_users (h w users c) = users"
  by (auto simp add: intents_2_def)

lemma start_fulfillment_keeps_users: "t_users (start_fulfillment w users r d) = users"
proof (cases "map_of start_intents (intent r)")
  case None
  then show ?thesis by (simp add: start_fulfillment_def serve_def)
next
  case (Some h)
  then have "(intent r, h) \<in> set start_intents" by (rule map_of_SomeD)
  then have "t_users (h w users (middleware_Fallback (Conversation r d))) = users"
    by (auto simp add: start_intents_def)
  with Some show ?thesis by (simp add: start_fulfillment_def serve_def Let_def)
qed

text \<open>
  Claim C7. No turn updates or deletes a subscriber. The collection after a turn is the
  collection before it, except after an opt-in with the permission grant, where it is
  the collection before it with the new subscriber added at the end. The trigger of the
  dispatch leaves the collection as it is for every result of the authorisation, of the
  query and of the delivery calls, failed calls among them.
\<close>

theorem subscribers_only_added:
  "t_users (fulfillment w users r d) =
     (if intent r = ''configurePushNotifications'' \<and> truthy (arguments r ''PERMISSION'')
      then users @ [[(''intent'', String ''classCanceled''), (''userId'', resolved_userId r)]]
      else users) \<and>
   t_users (fulfillment_2 w users r d) =
     (if intent r = ''Confirm Push Notifications'' \<and> truthy (arguments r ''PERMISSION'')
      then users @ [[(''intent'', String ''Class Canceled''), (''userId'', resolved_userId r)]]
      else users) \<and>
   t_users (start_fulfillment w users r d) = users"
proof (intro conjI)
  show "t_users (fulfillment w users r d) =
     (if intent r = ''configurePushNotifications'' \<and> truthy (arguments r ''PERMISSION'')
      then users @ [[(''intent'', String ''classCanceled''), (''userId'', resolved_userId r)]]
      else users)"
  proof (cases "intent r = ''configurePushNotifications''")
    case True
    then show ?thesis
      by (simp add: fulfillment_on configurePushNotifications_def resolved_userId_def
          collection_add_def FirestoreNames_INTENT_def FirestoreNames_USER_ID_def Let_def)
  next
    case False
    then have "t_users (serve middleware intents w users r d) = users"
      by (intro serve_users [where optin = "''configurePushNotifications''"])
         (simp_all add: intents_keep_users)
    with False show ?thesis by (simp add: fulfillment_def)
  qed
  show "t_users (fulfillment_2 w users r d) =
     (if intent r = ''Confirm Push Notifications'' \<and> truthy (arguments r ''PERMISSION'')
      then users @ [[(''intent'', String ''Class Canceled''), (''userId'', resolved_userId r)]]
      else users)"
  proof (cases "intent r = ''Confirm Push Notifications''")
    case True
    then show ?thesis
      by (simp add: fulfillment_2_on Confirm_Push_Notifications_def resolved_userId_def
          collection_add_def FirestoreNames_INTENT_def FirestoreNames_USER_ID_def Let_def)
  next
    case False
    then have "t_users (serve middleware_Fallback intents_2 w users r d) = users"
      by (intro serve_users [where optin = "''Confirm Push Notifications''"])
         (simp_all add: intents_2_keep_users)
    with False show ?thesis by (simp add: fulfillment_2_def)
  qed
  show "t_users (start_fulfillment w users r d) = users"
    by (rule start_fulfillment_keeps_users)
qed

theorem subscribers_only_added_witness:
  "t_users (fulfillment (example_world Monday) (example_users ''classCanceled'')
      (example_request ''cancelClass'') NoCount) = example_users ''classCanceled'' \<and>
   t_users (fulfillment_2 (example_world Monday) (example_users ''Class Canceled'')
      (example_request ''Cancel Class'') NoCount) = example_users ''Class Canceled'' \<and>
   t_users (fulfillment (example_world Monday) (example_users ''classCanceled'')
      ((example_request ''configurePushNotifications'')\<lparr>arguments := granted_arguments\<rparr>)
      NoCount) =
     example_users ''classCanceled'' @
     [[(''intent'', String ''classCanceled''), (''userId'', String ''user-7'')]]"
  using subscribers_only_added
          [of "example_world Monday" "example_users ''classCanceled''"
              "example_request ''cancelClass''" NoCount]
        subscribers_only_added
          [of "example_world Monday" "example_users ''Class Canceled''"
              "example_request ''Cancel Class''" NoCount]
        subscribers_only_added
          [of "example_world Monday" "example_users ''classCanceled''"
              "(example_request ''configurePushNotifications'')
                 \<lparr>arguments := granted_arguments\<rparr>" NoCount]
  by (simp add: example_request_def granted_arguments_def resolved_userId_def)

subsection \<open>The dispatch\<close>

lemma run_callbacks_eq:
  "run_callbacks rs = (concat (map answer_lines (takeWhile answered rs)), first_failure rs)"
proof (induction rs)
  case Nil
  show ?case by simp
next
  case (Cons r rs)
  show ?case
  proof (cases r)
    case (Inl err)
    then show ?thesis by (simp add: post_callback_def)
  next
    case (Inr a)
    obtain httpResponse body where "a = (httpResponse, body)" by (cases a)
    with Inr Cons show ?thesis by (simp add: post_callback_def)
  qed
qed

lemma cancelClass_authorized_posts:
  "posts_issued (Some (cancelClass_authorized (w\<lparr>post_results := p\<rparr>) users)) =
   posts_issued (Some (cancelClass_authorized w users))"
  by (simp add: cancelClass_authorized_def posts_issued_def Let_def
      split: sum.splits option.splits prod.splits)

lemma Cancel_Class_authorized_posts:
  "posts_issued (Some (Cancel_Class_authorized (w\<lparr>post_results := p\<rparr>) users)) =
   posts_issued (Some (Cancel_Class_authorized w users))"
  by (simp add: Cancel_Class_authorized_def posts_issued_def Let_def
      split: sum.splits option.splits prod.splits)

lemma cancelClass_authorized_done:
  assumes "authorize_result w = Inr token" and "query_result w = None"
    and "subscribers = where_eq ''intent'' (String ''classCanceled'') users"
    and "arrived = take (length subscribers) (post_results w)"
  shows "map target_userId (posts_issued (Some (cancelClass_authorized w users))) =
           map (\<lambda>user. doc_get user ''userId'') subscribers"
    and "console_log (Some (cancelClass_authorized w users)) =
           concat (map answer_lines (takeWhile answered arrived))"
    and "uncaught (Some (cancelClass_authorized w users)) = first_failure arrived"
  using assms
  by (simp_all add: cancelClass_authorized_def posts_issued_def console_log_def uncaught_def
      run_callbacks_eq FirestoreNames_INTENT_def FirestoreNames_USER_ID_def comp_def Let_def)

lemma Cancel_Class_authorized_done:
  assumes "authorize_result w = Inr token" and "query_result w = None"
    and "subscribers = where_eq ''intent'' (String ''Class Canceled'') users"
    and "arrived = take (length subscribers) (post_results w)"
  shows "map target_userId (posts_issued (Some (Cancel_Class_authorized w users))) =
           map (\<lambda>user. doc_get user ''userId'') subscribers"
    and "console_log (Some (Cancel_Class_authorized w users)) =
           concat (map answer_lines (takeWhile answered arrived))"
    and "uncaught (Some (Cancel_Class_authorized w users)) = first_failure arrived"
  using assms
  by (simp_all add: Cancel_Class_authorized_def posts_issued_def console_log_def uncaught_def
      run_callbacks_eq FirestoreNames_INTENT_def FirestoreNames_USER_ID_def comp_def Let_def)

lemma no_subscriber_no_post:
  "where_eq ''intent'' (String ''classCanceled'') users = [] \<Longrightarrow>
     posts_issued (Some (cancelClass_authorized w users)) = []"
  "where_eq ''intent'' (String ''Class Canceled'') users = [] \<Longrightarrow>
     posts_issued (Some (Cancel_Class_authorized w users)) = []"
  by (simp_all add: cancelClass_authorized_def Cancel_Class_authorized_def posts_issued_def
      FirestoreNames_INTENT_def Let_def split: sum.splits option.splits)

text \<open>
  Claim C4. A trigger turn whose topic has no subscriber issues no delivery call and
  still replies with the confirmation. For every trigger turn the reply is the
  confirmation and the handler throws nothing, whatever the results of the
  authorisation, of the query and of the delivery calls are: the reply is made before
  any of them is known.
\<close>

theorem trigger_replies_at_once:
  "(intent r = ''cancelClass'' \<longrightarrow>
      reply (fulfillment w users r d) =
        ([Simple ''A notification has been sent to all subscribed users.''], True) \<and>
      t_thrown (fulfillment w users r d) = None \<and>
      (where_eq ''intent'' (String ''classCanceled'') users = [] \<longrightarrow>
         posts_issued (t_dispatch (fulfillment w users r d)) = [])) \<and>
   (intent r = ''Cancel Class'' \<longrightarrow>
      reply (fulfillment_2 w users r d) =
        ([Simple ''A notification has been sent to all subscribed users.''], True) \<and>
      t_thrown (fulfillment_2 w users r d) = None \<and>
      (where_eq ''intent'' (String ''Class Canceled'') users = [] \<longrightarrow>
         posts_issued (t_dispatch (fulfillment_2 w users r d)) = []))"
  by (simp add: fulfillment_on fulfillment_2_on cancelClass_def Cancel_Class_def reply_def
      no_subscriber_no_post)

theorem trigger_replies_at_once_witness:
  "where_eq ''intent'' (String ''classCanceled'') (example_users ''daily'') = [] \<and>
   posts_issued (t_dispatch (fulfillment (example_world Monday) (example_users ''daily'')
      (example_request ''cancelClass'') NoCount)) = [] \<and>
   reply (fulfillment (example_world Monday) (example_users ''daily'')
      (example_request ''cancelClass'') NoCount) =
     ([Simple ''A notification has been sent to all subscribed users.''], True) \<and>
   posts_issued (t_dispatch (fulfillment_2 (example_world Monday) []
      (example_request ''Cancel Class'') NoCount)) = [] \<and>
   reply (fulfillment_2 (example_world Monday) []
      (example_request ''Cancel Class'') NoCount) =
     ([Simple ''A notification has been sent to all subscribed users.''], True)"
  using trigger_replies_at_once
          [of "example_request ''cancelClass''" "example_world Monday"
              "example_users ''daily''" NoCount]
        trigger_replies_at_once
          [of "example_request ''Cancel Class''" "example_world Monday" "[]" NoCount]
  by (simp add: example_request_def example_users_def where_eq_def)

lemma decimal_examples: "decimal 200 = ''200''" "decimal 404 = ''404''"
  by code_simp+

lemma example_subscribers:
  "where_eq ''intent'' (String topic) (example_users topic) = example_users topic"
  by (simp add: where_eq_def example_users_def)

lemma example_users_length: "length (example_users topic) = 2"
  by (simp add: example_users_def)

lemma example_targets:
  "map (\<lambda>user. doc_get user ''userId'') (example_users topic) =
   [String ''user-1'', String ''user-2'']"
  by (simp add: example_users_def doc_get_def)

text \<open>
  Claim C2, as the specification states it, fails: a delivery call that fails is not
  logged, and it is fatal to the rest of the dispatch. With two subscribers, the first
  result to arrive the failure ETIMEDOUT and the second the answer 200 OK, nothing is
  logged at all: the callback of the failure throws an error that nothing catches, the
  process ends, and the callback of the answer never runs.
\<close>

theorem failed_delivery_throws_counterexample:
  "console_log
     (t_dispatch (fulfillment (example_world Monday) (example_users ''classCanceled'')
        (example_request ''cancelClass'') NoCount)) = [] \<and>
   uncaught
     (t_dispatch (fulfillment (example_world Monday) (example_users ''classCanceled'')
        (example_request ''cancelClass'') NoCount)) =
     Some (Error ''API request error: ETIMEDOUT'')"
  by (simp add: fulfillment_on cancelClass_def cancelClass_authorized_def console_log_def
      uncaught_def example_world_def FirestoreNames_INTENT_def example_subscribers
      example_users_length example_post_results_def post_callback_def example_request_def
      Let_def)

text \<open>
  Claim C2, amended. For every dispatch: one delivery call is issued for each subscriber
  of the topic once the authorisation and the query have succeeded, and the calls that
  are issued and the confirmation reply, already sent, are the same whatever the results
  of the delivery calls are. A delivery call that fails is not logged and is fatal to the
  rest of the dispatch: its callback throws an "API request error" that nothing catches,
  and no callback runs after it. What is logged is the status line and the body of every
  answer, whatever its status, that arrives before the first failure; when no call fails,
  every answer that arrives is logged and nothing is thrown.
\<close>

theorem delivery_failure_not_logged:
  "(intent r = ''cancelClass'' \<longrightarrow>
      reply (fulfillment (w\<lparr>post_results := p\<rparr>) users r d) = reply (fulfillment w users r d) \<and>
      posts_issued (t_dispatch (fulfillment (w\<lparr>post_results := p\<rparr>) users r d)) =
        posts_issued (t_dispatch (fulfillment w users r d)) \<and>
      (authorize_result w = Inr token \<and> query_result w = None \<and>
       subscribers = where_eq ''intent'' (String ''classCanceled'') users \<and>
       arrived = take (length subscribers) (post_results w) \<longrightarrow>
         map target_userId (posts_issued (t_dispatch (fulfillment w users r d))) =
           map (\<lambda>user. doc_get user ''userId'') subscribers \<and>
         console_log (t_dispatch (fulfillment w users r d)) =
           concat (map answer_lines (takeWhile answered arrived)) \<and>
         uncaught (t_dispatch (fulfillment w users r d)) = first_failure arrived)) \<and>
   (intent r = ''Cancel Class'' \<longrightarrow>
      reply (fulfillment_2 (w\<lparr>post_results := p\<rparr>) users r d) =
        reply (fulfillment_2 w users r d) \<and>
      posts_issued (t_dispatch (fulfillment_2 (w\<lparr>post_results := p\<rparr>) users r d)) =
        posts_issued (t_dispatch (fulfillment_2 w users r d)) \<and>
      (authorize_result w = Inr token \<and> query_result w = None \<and>
       subscribers = where_eq ''intent'' (String ''Class Canceled'') users \<and>
       arrived = take (length subscribers) (post_results w) \<longrightarrow>
         map target_userId (posts_issued (t_dispatch (fulfillment_2 w users r d))) =
           map (\<lambda>user. doc_get user ''userId'') subscribers \<and>
         console_log (t_dispatch (fulfillment_2 w users r d)) =
           concat (map answer_lines (takeWhile answered arrived)) \<and>
         uncaught (t_dispatch (fulfillment_2 w users r d)) = first_failure arrived))"
proof (intro conjI impI)
  assume r: "intent r = ''cancelClass''"
  show "reply (fulfillment (w\<lparr>post_results := p\<rparr>) users r d) = reply (fulfillment w users r d)"
    using r by (simp add: fulfillment_on cancelClass_def reply_def)
  show "posts_issued (t_dispatch (fulfillment (w\<lparr>post_results := p\<rparr>) users r d)) =
        posts_issued (t_dispatch (fulfillment w users r d))"
    using r by (simp add: fulfillment_on cancelClass_def cancelClass_authorized_posts)
  assume "authorize_result w = Inr token \<and> query_result w = None \<and>
       subscribers = where_eq ''intent'' (String ''classCanceled'') users \<and>
       arrived = take (length subscribers) (post_results w)"
  then have a: "authorize_result w = Inr token" "query_result w = None"
      "subscribers = where_eq ''intent'' (String ''classCanceled'') users"
      "arrived = take (length subscribers) (post_results w)"
    by simp_all
  have t: "t_dispatch (fulfillment w users r d) = Some (cancelClass_authorized w users)"
    using r by (simp add: fulfillment_on cancelClass_def)
  show "map target_userId (posts_issued (t_dispatch (fulfillment w users r d))) =
           map (\<lambda>user. doc_get user ''userId'') subscribers"
    unfolding t by (rule cancelClass_authorized_done [OF a])
  show "console_log (t_dispatch (fulfillment w users r d)) =
           concat (map answer_lines (takeWhile answered arrived))"
    unfolding t by (rule cancelClass_authorized_done [OF a])
  show "uncaught (t_dispatch (fulfillment w users r d)) = first_failure arrived"
    unfolding t by (rule cancelClass_authorized_done [OF a])
next
  assume r: "intent r = ''Cancel Class''"
  show "reply (fulfillment_2 (w\<lparr>post_results := p\<rparr>) users r d) =
        reply (fulfillment_2 w users r d)"
    using r by (simp add: fulfillment_2_on Cancel_Class_def reply_def)
  show "posts_issued (t_dispatch (fulfillment_2 (w\<lparr>post_results := p\<rparr>) users r d)) =
        posts_issued (t_dispatch (fulfillment_2 w users r d))"
    using r by (simp add: fulfillment_2_on Cancel_Class_def Cancel_Class_authorized_posts)
  assume "authorize_result w = Inr token \<and> query_result w = None \<and>
       subscribers = where_eq ''intent'' (String ''Class Canceled'') users \<and>
       arrived = take (length subscribers) (post_results w)"
  then have a: "authorize_result w = Inr token" "query_result w = None"
      "subscribers = where_eq ''intent'' (String ''Class Canceled'') users"
      "arrived = take (length subscribers) (post_results w)"
    by simp_all
  have t: "t_dispatch (fulfillment_2 w users r d) = Some (Cancel_Class_authorized w users)"
    using r by (simp add: fulfillment_2_on Cancel_Class_def)
  show "map target_userId (posts_issued (t_dispatch (fulfillment_2 w users r d))) =
           map (\<lambda>user. doc_get user ''userId'') subscribers"
    unfolding t by (rule Cancel_Class_authorized_done [OF a])
  show "console_log (t_dispatch (fulfillment_2 w users r d)) =
           concat (map answer_lines (takeWhile answered arrived))"
    unfolding t by (rule Cancel_Class_authorized_done [OF a])
  show "uncaught (t_dispatch (fulfillment_2 w users r d)) = first_failure arrived"
    unfolding t by (rule Cancel_Class_authorized_done [OF a])
qed

theorem delivery_failure_not_logged_witness:
  "map target_userId
     (posts_issued
        (t_dispatch (fulfillment ((example_world Monday)\<lparr>post_results := answered_post_results\<rparr>)
           (example_users ''classCanceled'') (example_request ''cancelClass'') NoCount))) =
     [String ''user-1'', String ''user-2''] \<and>
   console_log
     (t_dispatch (fulfillment ((example_world Monday)\<lparr>post_results := answered_post_results\<rparr>)
        (example_users ''classCanceled'') (example_request ''cancelClass'') NoCount)) =
     [''200: OK'', ''{}'', ''404: Not Found'', ''{}''] \<and>
   uncaught
     (t_dispatch (fulfillment ((example_world Monday)\<lparr>post_results := answered_post_results\<rparr>)
        (example_users ''classCanceled'') (example_request ''cancelClass'') NoCount)) = None \<and>
   console_log
     (t_dispatch (fulfillment_2 ((example_world Monday)\<lparr>post_results := rev example_post_results\<rparr>)
        (example_users ''Class Canceled'') (example_request ''Cancel Class'') NoCount)) =
     [''200: OK'', ''{}''] \<and>
   uncaught
     (t_dispatch (fulfillment_2 ((example_world Monday)\<lparr>post_results := rev example_post_results\<rparr>)
        (example_users ''Class Canceled'') (example_request ''Cancel Class'') NoCount)) =
     Some (Error ''API request error: ETIMEDOUT'') \<and>
   reply (fulfillment_2 ((example_world Monday)\<lparr>post_results := rev example_post_results\<rparr>)
        (example_users ''Class Canceled'') (example_request ''Cancel Class'') NoCount) =
     reply (fulfillment_2 (example_world Monday)
        (example_users ''Class Canceled'') (example_request ''Cancel Class'') NoCount)"
  using delivery_failure_not_logged
          [where r = "example_request ''cancelClass''"
             and w = "(example_world Monday)\<lparr>post_results := answered_post_results\<rparr>"
             and p = "[]" and users = "example_users ''classCanceled''" and d = NoCount
             and token = "''token''" and subscribers = "example_users ''classCanceled''"
             and arrived = answered_post_results]
        delivery_failure_not_logged
          [where r = "example_request ''Cancel Class''"
             and w = "(example_world Monday)\<lparr>post_results := rev example_post_results\<rparr>"
             and p = "[]" and users = "example_users ''Class Canceled''" and d = NoCount
             and token = "''token''" and subscribers = "example_users ''Class Canceled''"
             and arrived = "rev example_post_results"]
        delivery_failure_not_logged
          [where r = "example_request ''Cancel Class''" and w = "example_world Monday"
             and p = "rev example_post_results" and users = "example_users ''Class Canceled''"
             and d = NoCount]
  by (simp add: example_request_def example_world_def example_subscribers
      example_users_length example_targets answered_post_results_def
      example_post_results_def decimal_examples)

end
